theory Spec2Isabelle
  imports Main "HOL-Library.Multiset"
begin

section \<open>Python values, strings and JSON\<close>

text \<open>
  The services pass Python dictionaries around (\<open>Dict[str, Any]\<close>), store JSON text in
  the database and in the Redis cache, and read timestamps back from the database as
  \<open>datetime\<close> objects. \<open>pyval\<close> is the fragment of Python's values these paths use.
  A dictionary is an association list with string keys; a float is kept by its \<open>repr\<close>
  text; a \<open>datetime\<close> is a number of seconds.
\<close>

datatype pyval =
    PNone
  | PBool bool
  | PInt int
  | PFloat string
  | PStr string
  | PList "pyval list"
  | PDict "(string \<times> pyval) list"
  | PDatetime nat

text \<open>Python's truth value of an object, as \<open>if x:\<close> tests it.\<close>

fun truthy :: "pyval \<Rightarrow> bool" where
  "truthy PNone = False"
| "truthy (PBool b) = b"
| "truthy (PInt i) = (i \<noteq> 0)"
| "truthy (PFloat r) = (r \<noteq> ''0.0'' \<and> r \<noteq> ''-0.0'')"
| "truthy (PStr s) = (s \<noteq> [])"
| "truthy (PList xs) = (xs \<noteq> [])"
| "truthy (PDict kvs) = (kvs \<noteq> [])"
| "truthy (PDatetime t) = True"

text \<open>
  \<open>json.dumps\<close> with the default encoder writes \<open>None\<close>, booleans, numbers, strings,
  lists and dictionaries, and raises \<open>TypeError\<close> on anything else: a \<open>datetime\<close>
  anywhere inside the value makes the whole call fail.
\<close>

fun json_serializable :: "pyval \<Rightarrow> bool" where
  "json_serializable (PList xs) = list_all json_serializable xs"
| "json_serializable (PDict kvs) = list_all (\<lambda>kv. json_serializable (snd kv)) kvs"
| "json_serializable (PDatetime t) = False"
| "json_serializable v = True"

text \<open>
  A JSON text is represented by the value it denotes: \<open>json.loads\<close> of what
  \<open>json.dumps\<close> wrote is that value again. Only whether \<open>json.dumps\<close> raises is
  computed.
\<close>

datatype json_text = JsonText pyval

definition json_dumps :: "pyval \<Rightarrow> json_text option" where
  "json_dumps v = (if json_serializable v then Some (JsonText v) else None)"

fun json_loads :: "json_text \<Rightarrow> pyval" where
  "json_loads (JsonText v) = v"

text \<open>\<open>d[key]\<close> on a value: \<open>None\<close> stands for the \<open>KeyError\<close> (or \<open>TypeError\<close>).\<close>

fun subscript :: "pyval \<Rightarrow> string \<Rightarrow> pyval option" where
  "subscript (PDict kvs) k = map_of kvs k"
| "subscript v k = None"

text \<open>\<open>str(i)\<close> for an integer: its decimal digits, with a minus sign when negative.\<close>

definition digit_char :: "nat \<Rightarrow> char" where
  "digit_char d = ''0123456789'' ! d"

fun str_nat :: "nat \<Rightarrow> string" where
  "str_nat n = (if n < 10 then [digit_char n] else str_nat (n div 10) @ [digit_char (n mod 10)])"

declare str_nat.simps [simp del]

definition str_int :: "int \<Rightarrow> string" where
  "str_int i = (if i < 0 then CHR ''-'' # str_nat (nat (- i)) else str_nat (nat i))"

text \<open>
  \<open>s.strip()\<close> removes at both ends every character for which \<open>str.isspace()\<close> holds.
  A string is its UTF-8 bytes, so each of these characters is the byte sequence that
  encodes it: U+0009 to U+000D, U+001C to U+0020, U+0085, U+00A0, U+1680, U+2000 to
  U+200A, U+2028, U+2029, U+202F, U+205F and U+3000.
\<close>

definition unicode_spaces :: "string list" where
  "unicode_spaces =
     [[CHR 0x09], [CHR 0x0A], [CHR 0x0B], [CHR 0x0C], [CHR 0x0D],
      [CHR 0x1C], [CHR 0x1D], [CHR 0x1E], [CHR 0x1F], [CHR 0x20],
      [CHR 0xC2, CHR 0x85], [CHR 0xC2, CHR 0xA0],
      [CHR 0xE1, CHR 0x9A, CHR 0x80],
      [CHR 0xE2, CHR 0x80, CHR 0x80], [CHR 0xE2, CHR 0x80, CHR 0x81],
      [CHR 0xE2, CHR 0x80, CHR 0x82], [CHR 0xE2, CHR 0x80, CHR 0x83],
      [CHR 0xE2, CHR 0x80, CHR 0x84], [CHR 0xE2, CHR 0x80, CHR 0x85],
      [CHR 0xE2, CHR 0x80, CHR 0x86], [CHR 0xE2, CHR 0x80, CHR 0x87],
      [CHR 0xE2, CHR 0x80, CHR 0x88], [CHR 0xE2, CHR 0x80, CHR 0x89],
      [CHR 0xE2, CHR 0x80, CHR 0x8A],
      [CHR 0xE2, CHR 0x80, CHR 0xA8], [CHR 0xE2, CHR 0x80, CHR 0xA9],
      [CHR 0xE2, CHR 0x80, CHR 0xAF], [CHR 0xE2, CHR 0x81, CHR 0x9F],
      [CHR 0xE3, CHR 0x80, CHR 0x80]]"

definition leading_space :: "string \<Rightarrow> string option" where
  "leading_space s = find (\<lambda>w. take (length w) s = w) unicode_spaces"

definition trailing_space :: "string \<Rightarrow> string option" where
  "trailing_space s = find (\<lambda>w. drop (length s - length w) s = w) unicode_spaces"

lemma unicode_space_nonempty: "w \<in> set unicode_spaces \<Longrightarrow> w \<noteq> []"
  by (auto simp: unicode_spaces_def)

lemma leading_space_shorter: "leading_space s = Some w \<Longrightarrow> length (drop (length w) s) < length s"
proof -
  assume "leading_space s = Some w"
  then have w: "w \<in> set unicode_spaces" and p: "take (length w) s = w"
    unfolding leading_space_def by (auto simp: find_Some_iff)
  have "w \<noteq> []" using w by (rule unicode_space_nonempty)
  then have "s \<noteq> []" using p by auto
  then show ?thesis using \<open>w \<noteq> []\<close> by simp
qed

lemma trailing_space_shorter:
  "trailing_space s = Some w \<Longrightarrow> length (take (length s - length w) s) < length s"
proof -
  assume "trailing_space s = Some w"
  then have w: "w \<in> set unicode_spaces" and p: "drop (length s - length w) s = w"
    unfolding trailing_space_def by (auto simp: find_Some_iff)
  have "w \<noteq> []" using w by (rule unicode_space_nonempty)
  then have "s \<noteq> []" using p by auto
  then show ?thesis using \<open>w \<noteq> []\<close> by simp
qed

function lstrip :: "string \<Rightarrow> string" where
  "lstrip s = (case leading_space s of None \<Rightarrow> s | Some w \<Rightarrow> lstrip (drop (length w) s))"
  by pat_completeness auto
termination
  by (relation "measure length") (auto dest: leading_space_shorter)

function rstrip :: "string \<Rightarrow> string" where
  "rstrip s =
     (case trailing_space s of None \<Rightarrow> s | Some w \<Rightarrow> rstrip (take (length s - length w) s))"
  by pat_completeness auto
termination
  by (relation "measure length") (auto dest: trailing_space_shorter)

declare lstrip.simps [simp del] rstrip.simps [simp del]

definition strip :: "string \<Rightarrow> string" where
  "strip s = rstrip (lstrip s)"

section \<open>The command executor\<close>

subsection \<open>\<open>shlex.split\<close>\<close>

text \<open>
  \<open>shlex.split(command)\<close> runs the POSIX-mode lexer with \<open>whitespace_split\<close> set and no
  comment characters. The lexer's state is \<open>' '\<close> (between tokens), \<open>'a'\<close> (inside a
  word), a quote character, or the escape character together with the state to return to
  (\<open>escapedstate\<close>). \<open>quoted\<close> records that the current token had a quoted part, so that
  an empty quoted string is still a token. \<open>None\<close> is the \<open>ValueError\<close> for an unclosed
  quotation or a trailing backslash.
\<close>

datatype lex_state = Between | InWord | InQuote char | Escaped lex_state

definition shlex_whitespace :: "char \<Rightarrow> bool" where
  "shlex_whitespace c = (c \<in> set [CHR '' '', CHR 0x09, CHR 0x0D, CHR 0x0A])"

definition shlex_quote_char :: "char \<Rightarrow> bool" where
  "shlex_quote_char c = (c = CHR 0x27 \<or> c = CHR 0x22)"

definition shlex_escape :: "char \<Rightarrow> bool" where
  "shlex_escape c = (c = CHR 0x5C)"

definition emit :: "string \<Rightarrow> string list option \<Rightarrow> string list option" where
  "emit tok rest = map_option ((#) tok) rest"

fun read_token :: "lex_state \<Rightarrow> bool \<Rightarrow> string \<Rightarrow> string \<Rightarrow> string list option" where
  "read_token Between quoted tok [] = Some []"
| "read_token InWord quoted tok [] = (if tok \<noteq> [] \<or> quoted then Some [tok] else Some [])"
| "read_token (InQuote q) quoted tok [] = None"
| "read_token (Escaped st) quoted tok [] = None"
| "read_token Between quoted tok (c # cs) =
     (if shlex_whitespace c then
        (if tok \<noteq> [] \<or> quoted then emit tok (read_token Between False [] cs)
         else read_token Between quoted tok cs)
      else if shlex_escape c then read_token (Escaped InWord) quoted tok cs
      else if shlex_quote_char c then read_token (InQuote c) quoted tok cs
      else read_token InWord quoted [c] cs)"
| "read_token InWord quoted tok (c # cs) =
     (if shlex_whitespace c then
        (if tok \<noteq> [] \<or> quoted then emit tok (read_token Between False [] cs)
         else read_token Between quoted tok cs)
      else if shlex_quote_char c then read_token (InQuote c) quoted tok cs
      else if shlex_escape c then read_token (Escaped InWord) quoted tok cs
      else read_token InWord quoted (tok @ [c]) cs)"
| "read_token (InQuote q) quoted tok (c # cs) =
     (if c = q then read_token InWord True tok cs
      else if shlex_escape c \<and> q = CHR 0x22 then read_token (Escaped (InQuote q)) True tok cs
      else read_token (InQuote q) True (tok @ [c]) cs)"
| "read_token (Escaped st) quoted tok (c # cs) =
     (case st of
        InQuote q \<Rightarrow>
          (if c \<noteq> CHR 0x5C \<and> c \<noteq> q then read_token st quoted (tok @ [CHR 0x5C, c]) cs
           else read_token st quoted (tok @ [c]) cs)
      | _ \<Rightarrow> read_token st quoted (tok @ [c]) cs)"

definition shlex_split :: "string \<Rightarrow> string list option" where
  "shlex_split command = read_token Between False [] command"

subsection \<open>\<open>execute_command\<close>\<close>

text \<open>
  The external program is the environment: a function from the argument vector that
  \<open>subprocess.run(args, check=True, capture_output=True, text=True)\<close> receives to what
  happened. \<open>Completed out parsed\<close> is exit status 0 with standard output \<open>out\<close>, and
  \<open>parsed\<close> is what \<open>json.loads(out)\<close> returns (\<open>None\<close> when it raises
  \<open>JSONDecodeError\<close>). \<open>CalledProcessError err\<close> is a non-zero exit status with its
  standard error, \<open>SpawnError\<close> any other exception of \<open>subprocess.run\<close>.
\<close>

datatype proc_outcome =
    Completed string "pyval option"
  | CalledProcessError string
  | SpawnError

type_synonym program = "string list \<Rightarrow> proc_outcome"

text \<open>An \<open>HTTPException\<close>, by its status code.\<close>

datatype http_error = HTTPException nat

definition execute_command :: "program \<Rightarrow> string \<Rightarrow> http_error + pyval" where
  "execute_command run command =
     (case shlex_split command of
        None \<Rightarrow> Inl (HTTPException 500)
      | Some args \<Rightarrow>
          (case run args of
             Completed out parsed \<Rightarrow>
               (case parsed of
                  Some output \<Rightarrow> Inr output
                | None \<Rightarrow> Inr (PDict [(''stdout'', PStr out)]))
           | CalledProcessError err \<Rightarrow> Inl (HTTPException 500)
           | SpawnError \<Rightarrow> Inl (HTTPException 500)))"

subsection \<open>The analysis command\<close>

text \<open>The request parameters, as \<open>AnalysisRequest.dict()\<close> gives them.\<close>

record analysis_parameters =
  anonymize :: bool
  backend :: "string option"
  custom_analysis :: bool
  custom_headers :: "string list option"
  explain :: bool
  filter_analyzers :: "string list option"
  interactive :: bool
  language :: string
  max_concurrency :: int
  namespace :: "string option"
  no_cache :: bool
  output_format :: string
  selector :: "string option"
  with_doc :: bool

text \<open>
  \<open>if parameters.get(key): command += f" --flag {parameters[key]}"\<close>: the flag is added
  for a string that is present and not empty, and for each element of a list.
\<close>

fun flag_value :: "string \<Rightarrow> string option \<Rightarrow> string" where
  "flag_value flag None = []"
| "flag_value flag (Some s) = (if s \<noteq> [] then flag @ s else [])"

fun flag_values :: "string \<Rightarrow> string list option \<Rightarrow> string" where
  "flag_values flag None = []"
| "flag_values flag (Some xs) = concat (map (\<lambda>x. flag @ x) xs)"

definition analyze_command :: "analysis_parameters \<Rightarrow> string \<Rightarrow> string" where
  "analyze_command p kubeconfig_path =
     ''k8sgpt analyze''
     @ flag_value '' --backend '' (backend p)
     @ (if custom_analysis p then '' --custom-analysis'' else [])
     @ flag_values '' --custom-headers '' (custom_headers p)
     @ (if explain p then '' --explain'' else [])
     @ flag_values '' --filter '' (filter_analyzers p)
     @ (if interactive p then '' --interactive'' else [])
     @ (if language p \<noteq> [] \<and> language p \<noteq> ''english''
        then '' --language '' @ language p else [])
     @ (if max_concurrency p \<noteq> 0 \<and> max_concurrency p \<noteq> 10
        then '' --max-concurrency '' @ str_int (max_concurrency p) else [])
     @ flag_value '' --namespace '' (namespace p)
     @ (if no_cache p then '' --no-cache'' else [])
     @ '' --output json''
     @ flag_value '' --selector '' (selector p)
     @ (if with_doc p then '' --with-doc'' else [])
     @ '' --kubeconfig '' @ kubeconfig_path"

text \<open>The request \<open>AnalysisRequest()\<close> with every field at its default.\<close>

definition default_parameters :: analysis_parameters where
  "default_parameters =
     \<lparr>anonymize = False, backend = None, custom_analysis = False, custom_headers = None,
      explain = False, filter_analyzers = None, interactive = False, language = ''english'',
      max_concurrency = 10, namespace = None, no_cache = False, output_format = ''text'',
      selector = None, with_doc = False\<rparr>"


section \<open>The kubeconfig service\<close>

subsection \<open>Data model\<close>

text \<open>
  A row of the table \<open>Kubeconf\<close> (fields prefixed \<open>k_\<close>), the table in row order, and the
  disk as a map from paths to file contents. \<open>select(...).first()\<close> is the first row of
  the table that satisfies the filter; a row object is written back by its primary key.
\<close>

record kubeconf =
  k_id :: nat
  k_filename :: string
  k_original_filename :: string
  k_user_id :: int
  k_active :: bool
  k_path :: string
  k_cluster_name :: "string option"
  k_context_name :: "string option"
  k_is_operator_installed :: bool
  k_created_at :: nat
  k_updated_at :: nat

record kubeconfig_service =
  kubeconfs :: "kubeconf list"
  disk :: "string \<rightharpoonup> string"

text \<open>The primary key the database gives a new row: one more than the largest in use.\<close>

definition next_id :: "nat list \<Rightarrow> nat" where
  "next_id ids = Suc (fold max ids 0)"

definition path_exists :: "kubeconfig_service \<Rightarrow> string \<Rightarrow> bool" where
  "path_exists s p = (disk s p \<noteq> None)"

subsection \<open>Upload\<close>

text \<open>\<open>os.path.splitext(name)[1]\<close> and \<open>os.path.join(dir, name)\<close> on POSIX paths.\<close>

definition splitext_ext :: "string \<Rightarrow> string" where
  "splitext_ext p =
     (let base = rev (takeWhile (\<lambda>c. c \<noteq> CHR ''/'') (rev p));
          ext = rev (takeWhile (\<lambda>c. c \<noteq> CHR ''.'') (rev base));
          stem = take (length base - length ext - 1) base
      in if CHR ''.'' \<in> set base \<and> list_ex (\<lambda>c. c \<noteq> CHR ''.'') stem
         then CHR ''.'' # ext else [])"

definition path_join :: "string \<Rightarrow> string \<Rightarrow> string" where
  "path_join a b =
     (if b \<noteq> [] \<and> hd b = CHR ''/'' then b
      else if a = [] \<or> last a = CHR ''/'' then a @ b
      else a @ ''/'' @ b)"

definition UPLOAD_DIR :: string where
  "UPLOAD_DIR = ''uploaded_kubeconfigs''"

definition probe_command :: "string \<Rightarrow> string \<Rightarrow> string" where
  "probe_command file_path jsonpath =
     ''kubectl config view --kubeconfig '' @ file_path @ '' --minify -o jsonpath='' @
     [CHR 0x27] @ jsonpath @ [CHR 0x27]"

text \<open>
  \<open>result.get("stdout", "").strip()\<close>: \<open>None\<close> is the \<open>AttributeError\<close> when the result
  is not a dictionary or its \<open>stdout\<close> entry is not a string.
\<close>

fun stdout_stripped :: "pyval \<Rightarrow> string option" where
  "stdout_stripped (PDict kvs) =
     (case map_of kvs ''stdout'' of
        None \<Rightarrow> Some []
      | Some (PStr out) \<Rightarrow> Some (strip out)
      | Some v \<Rightarrow> None)"
| "stdout_stripped v = None"

text \<open>
  \<open>upload_kubeconfig\<close>. The inputs that come from outside are the program run for the
  probes, what happens to the write, the uploaded file's name and bytes, the text of
  \<open>uuid.uuid4()\<close> and the clock. The write \<open>with open(file_path, "wb") as buffer:
  buffer.write(await file.read())\<close> either stores the bytes, or fails in \<open>open\<close> (a name
  the file system refuses, a missing directory) with nothing on disk, or fails after
  \<open>open\<close> created the file, which then holds some part of the bytes. The whole body
  stands in \<open>try: ... except Exception\<close>, which answers every exception, also the
  \<open>HTTPException\<close> of a failed probe, with status 500.
\<close>

datatype write_outcome = Written | OpenFailed | WriteFailed string

definition upload_kubeconfig ::
  "program \<Rightarrow> write_outcome \<Rightarrow> string \<Rightarrow> string \<Rightarrow> string \<Rightarrow> nat \<Rightarrow> int \<Rightarrow> kubeconfig_service
     \<Rightarrow> (http_error + kubeconf) \<times> kubeconfig_service" where
  "upload_kubeconfig run written file_name content uuid now user s =
     (let file_extension = splitext_ext file_name;
          unique_filename = uuid @ file_extension;
          file_path = path_join UPLOAD_DIR unique_filename
      in case written of
           OpenFailed \<Rightarrow> (Inl (HTTPException 500), s)
         | WriteFailed part \<Rightarrow>
             (Inl (HTTPException 500), s\<lparr>disk := (disk s)(file_path \<mapsto> part)\<rparr>)
         | Written \<Rightarrow>
            (let s1 = s\<lparr>disk := (disk s)(file_path \<mapsto> content)\<rparr>
             in case execute_command run (probe_command file_path ''{.clusters[0].name}'') of
               Inl e \<Rightarrow> (Inl (HTTPException 500), s1)
             | Inr result \<Rightarrow>
                 (case stdout_stripped result of
                    None \<Rightarrow> (Inl (HTTPException 500), s1)
                  | Some cluster_name \<Rightarrow>
                      (case execute_command run (probe_command file_path ''{.contexts[0].name}'') of
                         Inl e \<Rightarrow> (Inl (HTTPException 500), s1)
                       | Inr result2 \<Rightarrow>
                           (case stdout_stripped result2 of
                              None \<Rightarrow> (Inl (HTTPException 500), s1)
                            | Some context_name \<Rightarrow>
                                (let new_kubeconf =
                                       \<lparr>k_id = next_id (map k_id (kubeconfs s1)),
                                        k_filename = unique_filename,
                                        k_original_filename = file_name,
                                        k_user_id = user,
                                        k_active = False,
                                        k_path = file_path,
                                        k_cluster_name = Some cluster_name,
                                        k_context_name = Some context_name,
                                        k_is_operator_installed = False,
                                        k_created_at = now,
                                        k_updated_at = now\<rparr>
                                 in (Inr new_kubeconf,
                                     s1\<lparr>kubeconfs := kubeconfs s1 @ [new_kubeconf]\<rparr>)))))))"

text \<open>The path an upload writes to, from the generated name and the uploaded file's name.\<close>

definition upload_path :: "string \<Rightarrow> string \<Rightarrow> string" where
  "upload_path uuid file_name = path_join UPLOAD_DIR (uuid @ splitext_ext file_name)"

subsection \<open>Activation\<close>

definition deactivate_all :: "int \<Rightarrow> kubeconf list \<Rightarrow> kubeconf list" where
  "deactivate_all user rows =
     map (\<lambda>k. if k_user_id k = user then k\<lparr>k_active := False\<rparr> else k) rows"

definition activate_row :: "nat \<Rightarrow> kubeconf list \<Rightarrow> kubeconf list" where
  "activate_row i rows = map (\<lambda>k. if k_id k = i then k\<lparr>k_active := True\<rparr> else k) rows"

definition set_active_kubeconfig ::
  "string \<Rightarrow> int \<Rightarrow> kubeconfig_service \<Rightarrow> (http_error + unit) \<times> kubeconfig_service" where
  "set_active_kubeconfig filename user s =
     (case find (\<lambda>k. k_filename k = filename \<and> k_user_id k = user) (kubeconfs s) of
        None \<Rightarrow> (Inl (HTTPException 404), s)
      | Some kubeconf_to_activate \<Rightarrow>
          (Inr (),
           s\<lparr>kubeconfs :=
                activate_row (k_id kubeconf_to_activate) (deactivate_all user (kubeconfs s))\<rparr>))"

definition get_active_kubeconfig :: "kubeconfig_service \<Rightarrow> int \<Rightarrow> http_error + kubeconf" where
  "get_active_kubeconfig s user =
     (case find (\<lambda>k. k_user_id k = user \<and> k_active k) (kubeconfs s) of
        None \<Rightarrow> Inl (HTTPException 404)
      | Some k \<Rightarrow> Inr k)"

subsection \<open>Removal\<close>

text \<open>
  \<open>remove_kubeconfig\<close>. \<open>removable\<close> says whether \<open>os.remove\<close> succeeds on a file that
  exists; when it raises, the transaction is rolled back and the answer is status 500.
\<close>

definition delete_row :: "nat \<Rightarrow> kubeconf list \<Rightarrow> kubeconf list" where
  "delete_row i rows = filter (\<lambda>k. k_id k \<noteq> i) rows"

definition remove_kubeconfig ::
  "bool \<Rightarrow> string \<Rightarrow> int \<Rightarrow> kubeconfig_service \<Rightarrow> (http_error + unit) \<times> kubeconfig_service" where
  "remove_kubeconfig removable filename user s =
     (case find (\<lambda>k. k_filename k = filename \<and> k_user_id k = user) (kubeconfs s) of
        None \<Rightarrow> (Inl (HTTPException 404), s)
      | Some kubeconf \<Rightarrow>
          (let file_path = k_path kubeconf in
           if \<not> path_exists s file_path
           then (Inr (), s\<lparr>kubeconfs := delete_row (k_id kubeconf) (kubeconfs s)\<rparr>)
           else if removable
           then (Inr (), s\<lparr>disk := (disk s)(file_path := None),
                            kubeconfs := delete_row (k_id kubeconf) (kubeconfs s)\<rparr>)
           else (Inl (HTTPException 500), s)))"

subsection \<open>The liveness sweep\<close>

definition validate_kubeconfigs :: "kubeconfig_service \<Rightarrow> kubeconfig_service" where
  "validate_kubeconfigs s =
     s\<lparr>kubeconfs :=
          map (\<lambda>kubeconf. if \<not> path_exists s (k_path kubeconf)
                           then kubeconf\<lparr>k_active := False\<rparr> else kubeconf)
              (kubeconfs s)\<rparr>"


section \<open>The analysis service\<close>

subsection \<open>Data model\<close>

text \<open>
  Rows of the tables \<open>AnalysisResult\<close> (fields prefixed \<open>ar_\<close>) and \<open>AIBackendConfig\<close>
  (fields prefixed \<open>b_\<close>), and the fast tier \<open>redis_cache\<close>: \<open>None\<close> when it is
  not available, otherwise a map from keys to the time the entry expires and the value
  stored.
\<close>

record analysis_result =
  ar_id :: nat
  ar_user_id :: int
  ar_cluster_name :: string
  ar_namespace :: "string option"
  ar_result_id :: string
  ar_result_json :: json_text
  ar_created_at :: nat
  ar_parameters :: json_text

record ai_backend_config =
  b_id :: nat
  b_user_id :: int
  b_backend_name :: string
  b_is_default :: bool
  b_config_json :: json_text
  b_created_at :: nat
  b_updated_at :: nat

record k8sgpt_service =
  analysis_results :: "analysis_result list"
  backends :: "ai_backend_config list"
  redis_cache :: "(string \<rightharpoonup> nat \<times> pyval) option"

subsection \<open>The cache module\<close>

text \<open>
  The analysis service imports \<open>cache_get\<close> and \<open>cache_set\<close> from its module
  \<open>app.cache\<close>, which is not among the sources (\<open>k8sgpt_service/app/cache.py\<close> is
  missing). The three definitions below are therefore written from the specification, not
  from code.
\<close>

text \<open>
  Modelled from the spec: the key of the missing \<open>k8sgpt_service/app/cache.py\<close>. The
  specification gives the cache store the key pattern \<open>user:{id}:{key}\<close>.
\<close>

definition get_cache_key :: "int \<Rightarrow> string \<Rightarrow> string" where
  "get_cache_key user_id key = ''user:'' @ str_int user_id @ '':'' @ key"

text \<open>
  Modelled from the spec: the expiry of the missing \<open>k8sgpt_service/app/cache.py\<close>. The
  specification says per-key expiry, one hour by default; \<open>config.py\<close> has
  \<open>CACHE_TTL: int = 3600\<close>.
\<close>

definition CACHE_TTL :: nat where
  "CACHE_TTL = 3600"

text \<open>
  Modelled from the spec: \<open>cache_get\<close> of the missing \<open>k8sgpt_service/app/cache.py\<close>.
  The specification describes the fast tier as an external key-value store with expiry,
  whose client falls back to a state that does nothing when the connection failed: a
  read returns the value stored under the owner's key while the entry has not expired,
  and nothing otherwise.
\<close>

definition cache_get :: "k8sgpt_service \<Rightarrow> nat \<Rightarrow> int \<Rightarrow> string \<Rightarrow> pyval option" where
  "cache_get s now user_id key =
     (case redis_cache s of
        None \<Rightarrow> None
      | Some c \<Rightarrow>
          (case c (get_cache_key user_id key) of
             None \<Rightarrow> None
           | Some (expires, v) \<Rightarrow> if now < expires then Some v else None))"

text \<open>
  Modelled from the spec: \<open>cache_set\<close> of the missing \<open>k8sgpt_service/app/cache.py\<close>.
  The specification says that the fast tier is populated best-effort and that its
  failure never fails the operation: a write stores the value under the owner's key with
  the expiry and reports success, or does nothing and reports failure when the tier is
  not available.
\<close>

definition cache_set ::
  "k8sgpt_service \<Rightarrow> nat \<Rightarrow> int \<Rightarrow> string \<Rightarrow> pyval \<Rightarrow> bool \<times> k8sgpt_service" where
  "cache_set s now user_id key v =
     (case redis_cache s of
        None \<Rightarrow> (False, s)
      | Some c \<Rightarrow>
          (True, s\<lparr>redis_cache := Some (c(get_cache_key user_id key \<mapsto> (now + CACHE_TTL, v)))\<rparr>))"

subsection \<open>Running and storing an analysis\<close>

fun opt_str :: "string option \<Rightarrow> pyval" where
  "opt_str None = PNone"
| "opt_str (Some s) = PStr s"

fun opt_strs :: "string list option \<Rightarrow> pyval" where
  "opt_strs None = PNone"
| "opt_strs (Some xs) = PList (map PStr xs)"

definition parameters_dict :: "analysis_parameters \<Rightarrow> pyval" where
  "parameters_dict p =
     PDict [(''anonymize'', PBool (anonymize p)),
            (''backend'', opt_str (backend p)),
            (''custom_analysis'', PBool (custom_analysis p)),
            (''custom_headers'', opt_strs (custom_headers p)),
            (''explain'', PBool (explain p)),
            (''filter_analyzers'', opt_strs (filter_analyzers p)),
            (''interactive'', PBool (interactive p)),
            (''language'', PStr (language p)),
            (''max_concurrency'', PInt (max_concurrency p)),
            (''namespace'', opt_str (namespace p)),
            (''no_cache'', PBool (no_cache p)),
            (''output_format'', PStr (output_format p)),
            (''selector'', opt_str (selector p)),
            (''with_doc'', PBool (with_doc p))]"

text \<open>
  What a call of \<open>run_k8sgpt_analysis\<close> takes from outside: the answer of the kubeconfig
  service (\<open>get_active_kubeconfig_path\<close>: an error, or the path and the cluster name),
  the paths that exist on this host, the external program, the text of \<open>uuid.uuid4()\<close>
  and the clock.
\<close>

record analysis_env =
  active_kubeconfig :: "http_error + string \<times> string"
  files :: "string set"
  run_program :: program
  uuid4 :: string
  clock :: nat

definition run_k8sgpt_analysis ::
  "analysis_env \<Rightarrow> int \<Rightarrow> analysis_parameters \<Rightarrow> k8sgpt_service
     \<Rightarrow> (http_error + analysis_result) \<times> k8sgpt_service" where
  "run_k8sgpt_analysis env user_id parameters s =
     (case active_kubeconfig env of
        Inl e \<Rightarrow> (Inl e, s)
      | Inr (kubeconfig_path, cluster_name) \<Rightarrow>
          if kubeconfig_path \<notin> files env then (Inl (HTTPException 404), s)
          else
            (case execute_command (run_program env) (analyze_command parameters kubeconfig_path) of
               Inl e \<Rightarrow> (Inl e, s)
             | Inr result \<Rightarrow>
                 (let result_id = uuid4 env in
                  case json_dumps result of
                    None \<Rightarrow> (Inl (HTTPException 500), s)
                  | Some result_json \<Rightarrow>
                      (case json_dumps (parameters_dict parameters) of
                         None \<Rightarrow> (Inl (HTTPException 500), s)
                       | Some parameters_json \<Rightarrow>
                           (let analysis_result =
                                  \<lparr>ar_id = next_id (map ar_id (analysis_results s)),
                                   ar_user_id = user_id,
                                   ar_cluster_name = cluster_name,
                                   ar_namespace = namespace parameters,
                                   ar_result_id = result_id,
                                   ar_result_json = result_json,
                                   ar_created_at = clock env,
                                   ar_parameters = parameters_json\<rparr>;
                                s1 = s\<lparr>analysis_results := analysis_results s @ [analysis_result]\<rparr>;
                                cache_key = ''analysis_result:'' @ result_id
                            in (Inr analysis_result,
                                snd (cache_set s1 (clock env) user_id cache_key
                                       (PDict [(''result_id'', PStr result_id),
                                               (''result'', result),
                                               (''parameters'', parameters_dict parameters)]))))))))"

subsection \<open>Fetching and listing\<close>

text \<open>
  \<open>get_analysis_result\<close>, in three parts: the dictionary built from a row, the
  database branch (the code after the cache test), and the cache test before it.
\<close>

definition result_dict :: "analysis_result \<Rightarrow> pyval" where
  "result_dict analysis_result =
     PDict [(''result_id'', PStr (ar_result_id analysis_result)),
            (''cluster_name'', PStr (ar_cluster_name analysis_result)),
            (''namespace'', opt_str (ar_namespace analysis_result)),
            (''result'', json_loads (ar_result_json analysis_result)),
            (''created_at'', PDatetime (ar_created_at analysis_result)),
            (''parameters'', json_loads (ar_parameters analysis_result))]"

definition read_from_database ::
  "k8sgpt_service \<Rightarrow> nat \<Rightarrow> int \<Rightarrow> string \<Rightarrow> (http_error + pyval) \<times> k8sgpt_service" where
  "read_from_database s now user_id result_id =
     (case find (\<lambda>r. ar_user_id r = user_id \<and> ar_result_id r = result_id)
                (analysis_results s) of
        None \<Rightarrow> (Inl (HTTPException 404), s)
      | Some analysis_result \<Rightarrow>
          (let result = result_dict analysis_result
           in (Inr result,
               snd (cache_set s now user_id (''analysis_result:'' @ result_id) result))))"

definition get_analysis_result ::
  "k8sgpt_service \<Rightarrow> nat \<Rightarrow> int \<Rightarrow> string \<Rightarrow> (http_error + pyval) \<times> k8sgpt_service" where
  "get_analysis_result s now user_id result_id =
     (case cache_get s now user_id (''analysis_result:'' @ result_id) of
        Some cached_result \<Rightarrow>
          if truthy cached_result then (Inr cached_result, s)
          else read_from_database s now user_id result_id
      | None \<Rightarrow> read_from_database s now user_id result_id)"

text \<open>\<open>order_by(created_at.desc())\<close>: insertion into a list kept in descending order.\<close>

fun insert_desc :: "analysis_result \<Rightarrow> analysis_result list \<Rightarrow> analysis_result list" where
  "insert_desc r [] = [r]"
| "insert_desc r (x # xs) =
     (if ar_created_at x \<le> ar_created_at r then r # x # xs else x # insert_desc r xs)"

definition order_by_created_at_desc :: "analysis_result list \<Rightarrow> analysis_result list" where
  "order_by_created_at_desc rows = foldr insert_desc rows []"

definition summary :: "analysis_result \<Rightarrow> pyval" where
  "summary ar =
     PDict [(''result_id'', PStr (ar_result_id ar)),
            (''cluster_name'', PStr (ar_cluster_name ar)),
            (''namespace'', opt_str (ar_namespace ar)),
            (''created_at'', PDatetime (ar_created_at ar)),
            (''parameters'', json_loads (ar_parameters ar))]"

definition selected_rows :: "k8sgpt_service \<Rightarrow> int \<Rightarrow> nat \<Rightarrow> nat \<Rightarrow> analysis_result list" where
  "selected_rows s user_id limit offset =
     take limit (drop offset
       (order_by_created_at_desc (filter (\<lambda>r. ar_user_id r = user_id) (analysis_results s))))"

definition list_analysis_results :: "k8sgpt_service \<Rightarrow> int \<Rightarrow> nat \<Rightarrow> nat \<Rightarrow> pyval list" where
  "list_analysis_results s user_id limit offset = map summary (selected_rows s user_id limit offset)"

text \<open>
  The route \<open>list_analyses\<close>: every listed result is fetched again with
  \<open>get_analysis_result\<close> and its items are extracted. \<open>item.get(key, default)\<close> needs a
  dictionary, and \<open>detailed_result[key]\<close> needs the key; an exception that nothing catches
  is answered with status 500.
\<close>

definition item_get :: "(string \<times> pyval) list \<Rightarrow> string \<Rightarrow> pyval \<Rightarrow> pyval" where
  "item_get kvs key dflt = (case map_of kvs key of None \<Rightarrow> dflt | Some v \<Rightarrow> v)"

fun item_of :: "pyval \<Rightarrow> pyval option" where
  "item_of (PDict kvs) =
     Some (PDict [(''name'', item_get kvs ''name'' (PStr [])),
                  (''kind'', item_get kvs ''kind'' (PStr [])),
                  (''namespace'', item_get kvs ''namespace'' (PStr [])),
                  (''status'', item_get kvs ''status'' (PStr [])),
                  (''severity'', item_get kvs ''severity'' (PStr [])),
                  (''message'', item_get kvs ''message'' (PStr [])),
                  (''hint'', item_get kvs ''hint'' PNone),
                  (''explanation'', item_get kvs ''explanation'' PNone),
                  (''docs'', item_get kvs ''docs'' PNone)])"
| "item_of v = None"

fun extract_items :: "pyval \<Rightarrow> pyval list option" where
  "extract_items (PList xs) = those (map item_of xs)"
| "extract_items v = Some []"

definition transformed_result :: "pyval \<Rightarrow> http_error + pyval" where
  "transformed_result detailed_result =
     (case subscript detailed_result ''result'' of
        None \<Rightarrow> Inl (HTTPException 500)
      | Some result_json \<Rightarrow>
          (case extract_items result_json of
             None \<Rightarrow> Inl (HTTPException 500)
           | Some items \<Rightarrow>
               (case (subscript detailed_result ''result_id'',
                      subscript detailed_result ''cluster_name'',
                      subscript detailed_result ''namespace'',
                      subscript detailed_result ''created_at'',
                      subscript detailed_result ''parameters'') of
                  (Some rid, Some cn, Some ns, Some ca, Some ps) \<Rightarrow>
                    Inr (PDict [(''result_id'', rid), (''cluster_name'', cn), (''namespace'', ns),
                                (''items'', PList items), (''created_at'', ca),
                                (''parameters'', ps)])
                | _ \<Rightarrow> Inl (HTTPException 500))))"

fun transform_results ::
  "k8sgpt_service \<Rightarrow> nat \<Rightarrow> int \<Rightarrow> pyval list \<Rightarrow> (http_error + pyval list) \<times> k8sgpt_service" where
  "transform_results s now user_id [] = (Inr [], s)"
| "transform_results s now user_id (result # results) =
     (case subscript result ''result_id'' of
        Some (PStr result_id) \<Rightarrow>
          (case get_analysis_result s now user_id result_id of
             (Inl e, s1) \<Rightarrow> (Inl e, s1)
           | (Inr detailed_result, s1) \<Rightarrow>
               (case transformed_result detailed_result of
                  Inl e \<Rightarrow> (Inl e, s1)
                | Inr t \<Rightarrow>
                    (case transform_results s1 now user_id results of
                       (Inl e, s2) \<Rightarrow> (Inl e, s2)
                     | (Inr ts, s2) \<Rightarrow> (Inr (t # ts), s2))))
      | _ \<Rightarrow> (Inl (HTTPException 500), s))"

definition list_analyses ::
  "k8sgpt_service \<Rightarrow> nat \<Rightarrow> int \<Rightarrow> nat \<Rightarrow> nat \<Rightarrow> (http_error + pyval list) \<times> k8sgpt_service" where
  "list_analyses s now user_id limit offset =
     transform_results s now user_id (list_analysis_results s user_id limit offset)"

subsection \<open>The backend registry\<close>

definition backend_dict :: "ai_backend_config \<Rightarrow> pyval" where
  "backend_dict b =
     PDict [(''id'', PInt (int (b_id b))),
            (''backend_name'', PStr (b_backend_name b)),
            (''is_default'', PBool (b_is_default b)),
            (''config'', json_loads (b_config_json b)),
            (''created_at'', PDatetime (b_created_at b)),
            (''updated_at'', PDatetime (b_updated_at b))]"

definition find_backend :: "int \<Rightarrow> string \<Rightarrow> ai_backend_config list \<Rightarrow> ai_backend_config option" where
  "find_backend user_id backend_name rows =
     find (\<lambda>b. b_user_id b = user_id \<and> b_backend_name b = backend_name) rows"

text \<open>
  \<open>add_ai_backend\<close>: \<open>backend_config\<close> is the request dictionary after \<open>backend\<close> and
  \<open>is_default\<close> were popped from it.
\<close>

definition add_ai_backend ::
  "int \<Rightarrow> string \<Rightarrow> bool \<Rightarrow> pyval \<Rightarrow> nat \<Rightarrow> k8sgpt_service
     \<Rightarrow> (http_error + ai_backend_config) \<times> k8sgpt_service" where
  "add_ai_backend user_id backend_name is_default backend_config now s =
     (case json_dumps backend_config of
        None \<Rightarrow> (Inl (HTTPException 500), s)
      | Some config_json \<Rightarrow>
          (let rows1 =
                 (case find_backend user_id backend_name (backends s) of
                    Some existing_backend \<Rightarrow>
                      map (\<lambda>b. if b_id b = b_id existing_backend
                                then b\<lparr>b_config_json := config_json, b_is_default := is_default\<rparr>
                                else b) (backends s)
                  | None \<Rightarrow>
                      backends s @
                      [\<lparr>b_id = next_id (map b_id (backends s)),
                        b_user_id = user_id,
                        b_backend_name = backend_name,
                        b_is_default = is_default,
                        b_config_json = config_json,
                        b_created_at = now,
                        b_updated_at = now\<rparr>]);
               rows2 =
                 (if is_default
                  then map (\<lambda>b. if b_user_id b = user_id \<and> b_backend_name b \<noteq> backend_name
                                 then b\<lparr>b_is_default := False\<rparr> else b) rows1
                  else rows1)
           in case find_backend user_id backend_name rows2 of
                None \<Rightarrow> (Inl (HTTPException 500), s\<lparr>backends := rows2\<rparr>)
              | Some backend_row \<Rightarrow> (Inr backend_row, s\<lparr>backends := rows2\<rparr>)))"

definition get_ai_backend :: "int \<Rightarrow> string \<Rightarrow> k8sgpt_service \<Rightarrow> http_error + pyval" where
  "get_ai_backend user_id backend_name s =
     (case find_backend user_id backend_name (backends s) of
        None \<Rightarrow> Inl (HTTPException 404)
      | Some backend_row \<Rightarrow> Inr (backend_dict backend_row))"

definition delete_ai_backend ::
  "int \<Rightarrow> string \<Rightarrow> k8sgpt_service \<Rightarrow> (http_error + bool) \<times> k8sgpt_service" where
  "delete_ai_backend user_id backend_name s =
     (case find_backend user_id backend_name (backends s) of
        None \<Rightarrow> (Inl (HTTPException 404), s)
      | Some backend_row \<Rightarrow>
          (Inr True, s\<lparr>backends := filter (\<lambda>b. b_id b \<noteq> b_id backend_row) (backends s)\<rparr>))"

definition mark_default :: "nat \<Rightarrow> int \<Rightarrow> ai_backend_config list \<Rightarrow> ai_backend_config list" where
  "mark_default i user_id rows =
     map (\<lambda>b. if b_id b = i then b\<lparr>b_is_default := True\<rparr> else b)
       (map (\<lambda>b. if b_user_id b = user_id then b\<lparr>b_is_default := False\<rparr> else b) rows)"

definition set_default_ai_backend ::
  "int \<Rightarrow> string \<Rightarrow> k8sgpt_service \<Rightarrow> (http_error + bool) \<times> k8sgpt_service" where
  "set_default_ai_backend user_id backend_name s =
     (case find_backend user_id backend_name (backends s) of
        None \<Rightarrow> (Inl (HTTPException 404), s)
      | Some backend_row \<Rightarrow>
          (Inr True, s\<lparr>backends := mark_default (b_id backend_row) user_id (backends s)\<rparr>))"

section \<open>Sequences of operations\<close>

text \<open>
  The operations that write an \<open>active\<close> or \<open>is_default\<close> flag, each with the inputs
  of its request, run one after the other on the two databases. Both start empty.
\<close>

datatype operation =
    Upload program write_outcome string string string nat int
  | Activate string int
  | Upsert int string bool pyval nat
  | SetDefault int string

fun apply_operation ::
  "operation \<Rightarrow> kubeconfig_service \<times> k8sgpt_service \<Rightarrow> kubeconfig_service \<times> k8sgpt_service" where
  "apply_operation (Upload run written file_name content uuid now user) (k, a) =
     (snd (upload_kubeconfig run written file_name content uuid now user k), a)"
| "apply_operation (Activate filename user) (k, a) =
     (snd (set_active_kubeconfig filename user k), a)"
| "apply_operation (Upsert user backend_name is_default config now) (k, a) =
     (k, snd (add_ai_backend user backend_name is_default config now a))"
| "apply_operation (SetDefault user backend_name) (k, a) =
     (k, snd (set_default_ai_backend user backend_name a))"

definition initial_system :: "kubeconfig_service \<times> k8sgpt_service" where
  "initial_system =
     (\<lparr>kubeconfs = [], disk = Map.empty\<rparr>,
      \<lparr>analysis_results = [], backends = [], redis_cache = Some Map.empty\<rparr>)"

definition run_operations ::
  "operation list \<Rightarrow> kubeconfig_service \<times> k8sgpt_service \<Rightarrow> kubeconfig_service \<times> k8sgpt_service" where
  "run_operations ops sys = fold apply_operation ops sys"

text \<open>
  The requests that write analysis results or the cache, run one after the other on the
  analysis service, which starts with empty tables and a fast tier that is either
  available and empty or not available.
\<close>

datatype analysis_operation =
    Analyze analysis_env int analysis_parameters
  | Fetch nat int string
  | Listing nat int nat nat

fun apply_analysis_operation :: "analysis_operation \<Rightarrow> k8sgpt_service \<Rightarrow> k8sgpt_service" where
  "apply_analysis_operation (Analyze env user_id parameters) s =
     snd (run_k8sgpt_analysis env user_id parameters s)"
| "apply_analysis_operation (Fetch now user_id result_id) s =
     snd (get_analysis_result s now user_id result_id)"
| "apply_analysis_operation (Listing now user_id limit offset) s =
     snd (list_analyses s now user_id limit offset)"

definition fresh_service :: "bool \<Rightarrow> k8sgpt_service" where
  "fresh_service available =
     \<lparr>analysis_results = [], backends = [],
      redis_cache = (if available then Some Map.empty else None)\<rparr>"

definition run_analysis_operations :: "analysis_operation list \<Rightarrow> k8sgpt_service \<Rightarrow> k8sgpt_service" where
  "run_analysis_operations ops s = fold apply_analysis_operation ops s"

text \<open>The rows of one owner that carry the flag.\<close>

definition active_rows :: "int \<Rightarrow> kubeconf list \<Rightarrow> kubeconf list" where
  "active_rows user rows = filter (\<lambda>k. k_user_id k = user \<and> k_active k) rows"

definition default_rows :: "int \<Rightarrow> ai_backend_config list \<Rightarrow> ai_backend_config list" where
  "default_rows user rows = filter (\<lambda>b. b_user_id b = user \<and> b_is_default b) rows"


text \<open>
  What every reachable table satisfies: primary keys are distinct, a backend name occurs
  once per owner, and an owner has at most one flagged row.
\<close>

definition kubeconfs_ok :: "kubeconf list \<Rightarrow> bool" where
  "kubeconfs_ok rows = (distinct (map k_id rows) \<and> (\<forall>u. length (active_rows u rows) \<le> 1))"

definition backends_ok :: "ai_backend_config list \<Rightarrow> bool" where
  "backends_ok rows =
     (distinct (map b_id rows) \<and> distinct (map (\<lambda>b. (b_user_id b, b_backend_name b)) rows) \<and>
      (\<forall>u. length (default_rows u rows) \<le> 1))"

definition system_ok :: "kubeconfig_service \<times> k8sgpt_service \<Rightarrow> bool" where
  "system_ok sys = (kubeconfs_ok (kubeconfs (fst sys)) \<and> backends_ok (backends (snd sys)))"

text \<open>
  The two row updates of \<open>add_ai_backend\<close>, as one function of a row: for a backend
  that exists, and for the rows beside a new one.
\<close>

definition upsert_existing :: "nat \<Rightarrow> int \<Rightarrow> string \<Rightarrow> bool \<Rightarrow> json_text \<Rightarrow> ai_backend_config \<Rightarrow> ai_backend_config" where
  "upsert_existing i u name d cj b =
     (let b1 = (if b_id b = i then b\<lparr>b_config_json := cj, b_is_default := d\<rparr> else b)
      in if d \<and> b_user_id b1 = u \<and> b_backend_name b1 \<noteq> name then b1\<lparr>b_is_default := False\<rparr> else b1)"

definition clear_others :: "int \<Rightarrow> string \<Rightarrow> bool \<Rightarrow> ai_backend_config \<Rightarrow> ai_backend_config" where
  "clear_others u name d b =
     (if d \<and> b_user_id b = u \<and> b_backend_name b \<noteq> name then b\<lparr>b_is_default := False\<rparr> else b)"

section \<open>Example states\<close>

definition example_kubectl :: program where
  "example_kubectl args = Completed ''prod'' None"

definition example_operations :: "operation list" where
  "example_operations =
     [Upload example_kubectl Written ''config.yaml'' ''apiVersion: v1'' ''u1'' 1 7,
      Upload example_kubectl Written ''config.yaml'' ''apiVersion: v1'' ''u2'' 2 7,
      Activate ''u1.yaml'' 7,
      Activate ''u2.yaml'' 7,
      Upsert 7 ''openai'' True (PDict [(''model'', PStr ''gpt-4'')]) 3,
      Upsert 7 ''ollama'' True (PDict [(''model'', PStr ''llama3'')]) 4]"

definition example_kubeconf :: "nat \<Rightarrow> string \<Rightarrow> int \<Rightarrow> bool \<Rightarrow> kubeconf" where
  "example_kubeconf i name user act =
     \<lparr>k_id = i, k_filename = name, k_original_filename = ''config.yaml'', k_user_id = user,
      k_active = act, k_path = ''uploaded_kubeconfigs/'' @ name, k_cluster_name = Some ''prod'',
      k_context_name = Some ''admin'', k_is_operator_installed = False,
      k_created_at = 0, k_updated_at = 0\<rparr>"

definition example_kubeconfig_service :: kubeconfig_service where
  "example_kubeconfig_service =
     \<lparr>kubeconfs = [example_kubeconf 1 ''a.yaml'' 7 True, example_kubeconf 2 ''b.yaml'' 7 False,
                   example_kubeconf 3 ''c.yaml'' 8 True],
      disk = [''uploaded_kubeconfigs/b.yaml'' \<mapsto> ''B'', ''uploaded_kubeconfigs/c.yaml'' \<mapsto> ''C'']\<rparr>"

definition example_backend :: "nat \<Rightarrow> string \<Rightarrow> int \<Rightarrow> bool \<Rightarrow> ai_backend_config" where
  "example_backend i name user dflt =
     \<lparr>b_id = i, b_user_id = user, b_backend_name = name, b_is_default = dflt,
      b_config_json = JsonText (PDict [(''model'', PStr ''gpt-4'')]),
      b_created_at = 0, b_updated_at = 0\<rparr>"

definition example_analysis :: "nat \<Rightarrow> string \<Rightarrow> int \<Rightarrow> nat \<Rightarrow> analysis_result" where
  "example_analysis i rid user t =
     \<lparr>ar_id = i, ar_user_id = user, ar_cluster_name = ''prod'', ar_namespace = None,
      ar_result_id = rid, ar_result_json = JsonText (PList []), ar_created_at = t,
      ar_parameters = JsonText (PDict [])\<rparr>"

definition example_k8sgpt_service :: k8sgpt_service where
  "example_k8sgpt_service =
     \<lparr>analysis_results = [example_analysis 1 ''r1'' 7 10, example_analysis 2 ''r2'' 7 20,
                          example_analysis 3 ''r3'' 8 15],
      backends = [example_backend 1 ''openai'' 7 True, example_backend 2 ''ollama'' 7 False,
                  example_backend 3 ''openai'' 8 True],
      redis_cache = Some Map.empty\<rparr>"

definition failing_kubectl :: program where
  "failing_kubectl args = CalledProcessError ''error: invalid configuration''"

definition example_k8sgpt :: program where
  "example_k8sgpt args = Completed ''0 problems detected'' None"

definition example_env :: analysis_env where
  "example_env =
     \<lparr>active_kubeconfig = Inr (''/data/kubeconfig.yaml'', ''prod''),
      files = {''/data/kubeconfig.yaml''},
      run_program = example_k8sgpt,
      uuid4 = ''r9'',
      clock = 100\<rparr>"

text \<open>
  What every reachable cache satisfies: each key in it is the key of a row of the table,
  built from that row's owner and result identifier.
\<close>

definition cache_keys_ok :: "k8sgpt_service \<Rightarrow> bool" where
  "cache_keys_ok s =
     (\<forall>c key e. redis_cache s = Some c \<longrightarrow> c key = Some e \<longrightarrow>
        (\<exists>r\<in>set (analysis_results s).
           key = get_cache_key (ar_user_id r) (''analysis_result:'' @ ar_result_id r)))"

text \<open>The value of a decimal numeral, to tell two of them apart.\<close>

definition digit_value :: "char \<Rightarrow> nat" where
  "digit_value c = of_char c - 48"

definition decimal_value :: "string \<Rightarrow> nat" where
  "decimal_value ds = foldl (\<lambda>acc c. 10 * acc + digit_value c) 0 ds"

section \<open>Lists, keys and fresh identifiers\<close>

lemma strip_prod: "strip ''prod'' = ''prod''"
  by (simp add: strip_def lstrip.simps rstrip.simps leading_space_def trailing_space_def
        unicode_spaces_def)

lemma strip_examples:
  "strip ('' prod'' @ [CHR 0x0A]) = ''prod''"
  "strip (''prod'' @ [CHR 0xC2, CHR 0xA0]) = ''prod''"
  "strip ([CHR 0xC2, CHR 0x85] @ ''my cluster'' @ [CHR 0xE3, CHR 0x80, CHR 0x80, CHR 0x09]) = ''my cluster''"
  by (simp_all add: strip_def lstrip.simps rstrip.simps leading_space_def trailing_space_def
        unicode_spaces_def)

lemma fold_max_ge: "a \<le> fold max ids (a::nat)"
  by (induction ids arbitrary: a) (auto intro: order_trans[OF max.cobounded2])

lemma fold_max_mem: "x \<in> set ids \<Longrightarrow> x \<le> fold max ids (a::nat)"
proof (induction ids arbitrary: a)
  case Nil then show ?case by simp
next
  case (Cons y ys)
  show ?case
  proof (cases "x = y")
    case True
    have "max y a \<le> fold max ys (max y a)" by (rule fold_max_ge)
    then show ?thesis using True by simp
  next
    case False
    then show ?thesis using Cons by simp
  qed
qed

lemma next_id_fresh: "next_id ids \<notin> set ids"
  using fold_max_mem[of "next_id ids" ids 0] by (auto simp: next_id_def)

lemma length_filter_map_le:
  "(\<And>x. x \<in> set xs \<Longrightarrow> P (f x) \<Longrightarrow> Q x) \<Longrightarrow> length (filter P (map f xs)) \<le> length (filter Q xs)"
  by (induction xs) auto

lemma distinct_key_count:
  "distinct (map key xs) \<Longrightarrow> length (filter (\<lambda>x. key x = k) xs) \<le> Suc 0"
proof (induction xs)
  case Nil then show ?case by simp
next
  case (Cons x xs)
  show ?case
  proof (cases "key x = k")
    case True
    then have "k \<notin> key ` set xs" using Cons.prems by auto
    then have "filter (\<lambda>x. key x = k) xs = []" by (auto simp: filter_empty_conv)
    then show ?thesis using True by simp
  next
    case False
    then show ?thesis using Cons by simp
  qed
qed

lemma distinct_id_eq:
  "distinct (map key xs) \<Longrightarrow> x \<in> set xs \<Longrightarrow> y \<in> set xs \<Longrightarrow> key x = key y \<Longrightarrow> x = y"
  by (meson distinct_map inj_onD)

lemma find_SomeD: "find P xs = Some x \<Longrightarrow> x \<in> set xs \<and> P x"
  by (induction xs) (auto split: if_splits)

lemma find_None_D: "find P xs = None \<Longrightarrow> x \<in> set xs \<Longrightarrow> \<not> P x"
  by (auto simp: find_None_iff)

section \<open>The single-flag invariant\<close>

subsection \<open>Credentials\<close>

lemma activate_deactivate_map:
  "activate_row i (deactivate_all u rows) =
     map (\<lambda>k. if k_id k = i then k\<lparr>k_active := True\<rparr>
               else if k_user_id k = u then k\<lparr>k_active := False\<rparr> else k) rows"
  by (induction rows) (auto simp: activate_row_def deactivate_all_def)

lemma activate_ids [simp]: "map k_id (activate_row i (deactivate_all u rows)) = map k_id rows"
  by (induction rows) (auto simp: activate_row_def deactivate_all_def)

lemma activated_rows_none:
  "i \<notin> k_id ` set rows \<Longrightarrow> active_rows u (activate_row i (deactivate_all u rows)) = []"
  by (induction rows) (auto simp: activate_row_def deactivate_all_def active_rows_def)

lemma activated_rows_exact:
  "distinct (map k_id rows) \<Longrightarrow> t \<in> set rows \<Longrightarrow> k_user_id t = u \<Longrightarrow>
   active_rows u (activate_row (k_id t) (deactivate_all u rows)) = [t\<lparr>k_active := True\<rparr>]"
proof (induction rows)
  case Nil then show ?case by simp
next
  case (Cons x xs)
  show ?case
  proof (cases "x = t")
    case True
    then have "k_id t \<notin> k_id ` set xs" using Cons.prems(1) by auto
    then have "active_rows u (activate_row (k_id t) (deactivate_all u xs)) = []"
      by (rule activated_rows_none)
    then show ?thesis using True Cons.prems(3)
      by (simp add: activate_row_def deactivate_all_def active_rows_def)
  next
    case False
    then have t: "t \<in> set xs" using Cons.prems(2) by simp
    then have "k_id x \<noteq> k_id t" using Cons.prems(1) by force
    moreover have "active_rows u (activate_row (k_id t) (deactivate_all u xs)) = [t\<lparr>k_active := True\<rparr>]"
      using Cons.IH t Cons.prems by simp
    ultimately show ?thesis
      using Cons.prems(3) by (simp add: activate_row_def deactivate_all_def active_rows_def)
  qed
qed

lemma activated_rows_other:
  "distinct (map k_id rows) \<Longrightarrow> t \<in> set rows \<Longrightarrow> k_user_id t = u \<Longrightarrow>
   filter (\<lambda>k. k_user_id k \<noteq> u) (activate_row (k_id t) (deactivate_all u rows)) =
   filter (\<lambda>k. k_user_id k \<noteq> u) rows"
proof -
  assume d: "distinct (map k_id rows)" and t: "t \<in> set rows" and u: "k_user_id t = u"
  have "\<And>x. x \<in> set rows \<Longrightarrow> k_id x = k_id t \<Longrightarrow> x = t"
    using d t by (meson distinct_id_eq)
  then have "\<And>x. x \<in> set rows \<Longrightarrow> k_user_id x \<noteq> u \<Longrightarrow> k_id x \<noteq> k_id t"
    using u by blast
  then show ?thesis
    unfolding activate_deactivate_map
    by (induction rows) auto
qed

lemma active_rows_other_user:
  assumes "distinct (map k_id rows)" "t \<in> set rows" "k_user_id t = u" "v \<noteq> u"
  shows "active_rows v (activate_row (k_id t) (deactivate_all u rows)) = active_rows v rows"
proof -
  have "active_rows v xs = active_rows v (filter (\<lambda>k. k_user_id k \<noteq> u) xs)" for xs
    using assms(4) by (induction xs) (auto simp: active_rows_def)
  then show ?thesis using activated_rows_other[OF assms(1-3)] by metis
qed

lemma set_active_ok:
  assumes "kubeconfs_ok (kubeconfs s)"
  shows "kubeconfs_ok (kubeconfs (snd (set_active_kubeconfig filename u s)))"
proof (cases "find (\<lambda>k. k_filename k = filename \<and> k_user_id k = u) (kubeconfs s)")
  case None
  then show ?thesis using assms by (simp add: set_active_kubeconfig_def)
next
  case (Some t)
  then have t: "t \<in> set (kubeconfs s)" "k_user_id t = u" by (auto dest: find_SomeD)
  have d: "distinct (map k_id (kubeconfs s))" using assms by (simp add: kubeconfs_ok_def)
  have "length (active_rows v (activate_row (k_id t) (deactivate_all u (kubeconfs s)))) \<le> 1" for v
  proof (cases "v = u")
    case True
    then show ?thesis using activated_rows_exact[OF d t] by simp
  next
    case False
    then show ?thesis using active_rows_other_user[OF d t False] assms
      by (simp add: kubeconfs_ok_def)
  qed
  then show ?thesis using Some d by (simp add: set_active_kubeconfig_def kubeconfs_ok_def)
qed

lemma upload_rows:
  "kubeconfs (snd (upload_kubeconfig run w fn content uuid now u s)) = kubeconfs s \<or>
   (\<exists>new. kubeconfs (snd (upload_kubeconfig run w fn content uuid now u s)) = kubeconfs s @ [new]
      \<and> k_id new = next_id (map k_id (kubeconfs s)) \<and> \<not> k_active new
      \<and> fst (upload_kubeconfig run w fn content uuid now u s) = Inr new)"
  by (cases w) (simp_all add: upload_kubeconfig_def Let_def split: sum.splits option.splits)

lemma upload_ok:
  assumes "kubeconfs_ok (kubeconfs s)"
  shows "kubeconfs_ok (kubeconfs (snd (upload_kubeconfig run w fn content uuid now u s)))"
  using upload_rows[of run w fn content uuid now u s] assms next_id_fresh[of "map k_id (kubeconfs s)"]
  by (auto simp: kubeconfs_ok_def active_rows_def)

subsection \<open>Backend configurations\<close>

lemma set_default_rows:
  "find_backend u name (backends s) = Some t \<Longrightarrow>
   set_default_ai_backend u name s = (Inr True, s\<lparr>backends := mark_default (b_id t) u (backends s)\<rparr>)"
  by (simp add: set_default_ai_backend_def)

lemma mark_default_ids [simp]: "map b_id (mark_default i u rows) = map b_id rows"
  by (induction rows) (auto simp: mark_default_def)

lemma mark_default_keys [simp]:
  "map (\<lambda>b. (b_user_id b, b_backend_name b)) (mark_default i u rows) =
   map (\<lambda>b. (b_user_id b, b_backend_name b)) rows"
  by (induction rows) (auto simp: mark_default_def)

lemma mark_default_none:
  "i \<notin> b_id ` set rows \<Longrightarrow> default_rows u (mark_default i u rows) = []"
  by (induction rows) (auto simp: mark_default_def default_rows_def)

lemma mark_default_exact:
  "distinct (map b_id rows) \<Longrightarrow> t \<in> set rows \<Longrightarrow> b_user_id t = u \<Longrightarrow>
   default_rows u (mark_default (b_id t) u rows) = [t\<lparr>b_is_default := True\<rparr>]"
proof (induction rows)
  case Nil then show ?case by simp
next
  case (Cons x xs)
  show ?case
  proof (cases "x = t")
    case True
    then have "b_id t \<notin> b_id ` set xs" using Cons.prems(1) by auto
    then have "default_rows u (mark_default (b_id t) u xs) = []"
      by (rule mark_default_none)
    then show ?thesis using True Cons.prems(3)
      by (simp add: mark_default_def default_rows_def)
  next
    case False
    then have t: "t \<in> set xs" using Cons.prems(2) by simp
    then have "b_id x \<noteq> b_id t" using Cons.prems(1) by force
    moreover have "default_rows u (mark_default (b_id t) u xs) = [t\<lparr>b_is_default := True\<rparr>]"
      using Cons.IH t Cons.prems by simp
    ultimately show ?thesis
      using Cons.prems(3) by (simp add: mark_default_def default_rows_def)
  qed
qed

lemma mark_default_other:
  assumes "distinct (map b_id rows)" "t \<in> set rows" "b_user_id t = u"
  shows "filter (\<lambda>b. b_user_id b \<noteq> u) (mark_default (b_id t) u rows) =
         filter (\<lambda>b. b_user_id b \<noteq> u) rows"
proof -
  have "\<And>x. x \<in> set rows \<Longrightarrow> b_id x = b_id t \<Longrightarrow> x = t"
    using assms(1,2) by (meson distinct_id_eq)
  then have "\<And>x. x \<in> set rows \<Longrightarrow> b_user_id x \<noteq> u \<Longrightarrow> b_id x \<noteq> b_id t"
    using assms(3) by blast
  then show ?thesis
    unfolding mark_default_def by (induction rows) auto
qed

lemma default_rows_other_user:
  assumes "distinct (map b_id rows)" "t \<in> set rows" "b_user_id t = u" "v \<noteq> u"
  shows "default_rows v (mark_default (b_id t) u rows) = default_rows v rows"
proof -
  have "default_rows v xs = default_rows v (filter (\<lambda>b. b_user_id b \<noteq> u) xs)" for xs
    using assms(4) by (induction xs) (auto simp: default_rows_def)
  then show ?thesis using mark_default_other[OF assms(1-3)] by metis
qed

lemma find_backend_SomeD:
  "find_backend u name rows = Some t \<Longrightarrow> t \<in> set rows \<and> b_user_id t = u \<and> b_backend_name t = name"
  unfolding find_backend_def by (auto dest: find_SomeD)

lemma set_default_ok:
  assumes "backends_ok (backends s)"
  shows "backends_ok (backends (snd (set_default_ai_backend u name s)))"
proof (cases "find_backend u name (backends s)")
  case None
  then show ?thesis using assms by (simp add: set_default_ai_backend_def)
next
  case (Some t)
  then have t: "t \<in> set (backends s)" "b_user_id t = u" by (auto dest: find_backend_SomeD)
  have d: "distinct (map b_id (backends s))" using assms by (simp add: backends_ok_def)
  have "length (default_rows v (mark_default (b_id t) u (backends s))) \<le> 1" for v
  proof (cases "v = u")
    case True
    then show ?thesis using mark_default_exact[OF d t] by simp
  next
    case False
    then show ?thesis using default_rows_other_user[OF d t False] assms
      by (simp add: backends_ok_def)
  qed
  then show ?thesis using set_default_rows[OF Some] assms by (simp add: backends_ok_def)
qed

lemma add_backend_rows:
  "backends (snd (add_ai_backend u name d cfg now s)) =
     (case json_dumps cfg of
        None \<Rightarrow> backends s
      | Some cj \<Rightarrow>
          (case find_backend u name (backends s) of
             Some e \<Rightarrow> map (upsert_existing (b_id e) u name d cj) (backends s)
           | None \<Rightarrow> map (clear_others u name d) (backends s) @
                 [\<lparr>b_id = next_id (map b_id (backends s)), b_user_id = u, b_backend_name = name,
                   b_is_default = d, b_config_json = cj, b_created_at = now, b_updated_at = now\<rparr>]))"
  by (cases "json_dumps cfg"; cases "find_backend u name (backends s)"; cases d)
     (simp_all add: add_ai_backend_def Let_def upsert_existing_def[abs_def] clear_others_def[abs_def]
           split: option.splits)

lemma upsert_existing_fields [simp]:
  "b_id (upsert_existing i u name d cj b) = b_id b"
  "b_user_id (upsert_existing i u name d cj b) = b_user_id b"
  "b_backend_name (upsert_existing i u name d cj b) = b_backend_name b"
  by (simp_all add: upsert_existing_def Let_def)

lemma clear_others_fields [simp]:
  "b_id (clear_others u name d b) = b_id b"
  "b_user_id (clear_others u name d b) = b_user_id b"
  "b_backend_name (clear_others u name d b) = b_backend_name b"
  by (simp_all add: clear_others_def)

lemma upsert_existing_count:
  assumes ok: "backends_ok rows" and e: "e \<in> set rows" "b_user_id e = u" "b_backend_name e = name"
  shows "length (default_rows v (map (upsert_existing (b_id e) u name d cj) rows)) \<le> 1"
proof -
  have d1: "distinct (map b_id rows)"
    and d2: "distinct (map (\<lambda>b. (b_user_id b, b_backend_name b)) rows)"
    and c: "length (default_rows v rows) \<le> 1"
    using ok by (auto simp: backends_ok_def)
  have same: "\<And>x. x \<in> set rows \<Longrightarrow> b_id x = b_id e \<Longrightarrow> x = e"
    using d1 e(1) by (meson distinct_id_eq)
  show ?thesis
  proof (cases "v = u \<and> d")
    case True
    have "length (default_rows v (map (upsert_existing (b_id e) u name d cj) rows))
            \<le> length (filter (\<lambda>b. (b_user_id b, b_backend_name b) = (u, name)) rows)"
      unfolding default_rows_def
    proof (rule length_filter_map_le)
      fix x assume "x \<in> set rows"
        and "b_user_id (upsert_existing (b_id e) u name d cj x) = v \<and>
             b_is_default (upsert_existing (b_id e) u name d cj x)"
      then show "(b_user_id x, b_backend_name x) = (u, name)"
        using True by (auto simp: upsert_existing_def Let_def split: if_splits)
    qed
    also have "\<dots> \<le> 1" using distinct_key_count[OF d2, of "(u, name)"] by simp
    finally show ?thesis .
  next
    case False
    have "length (default_rows v (map (upsert_existing (b_id e) u name d cj) rows))
            \<le> length (default_rows v rows)"
      unfolding default_rows_def
    proof (rule length_filter_map_le)
      fix x assume x: "x \<in> set rows"
        and p: "b_user_id (upsert_existing (b_id e) u name d cj x) = v \<and>
             b_is_default (upsert_existing (b_id e) u name d cj x)"
      show "b_user_id x = v \<and> b_is_default x"
      proof (cases "b_id x = b_id e")
        case True
        then have "x = e" using same x by blast
        then show ?thesis using p False e(2)
          by (auto simp: upsert_existing_def Let_def split: if_splits)
      next
        case False
        then show ?thesis using p
          by (auto simp: upsert_existing_def Let_def split: if_splits)
      qed
    qed
    then show ?thesis using c by simp
  qed
qed

lemma clear_others_count:
  "length (default_rows v (map (clear_others u name d) rows)) \<le> length (default_rows v rows)"
  unfolding default_rows_def
  by (rule length_filter_map_le) (auto simp: clear_others_def split: if_splits)

lemma clear_others_none:
  "find_backend u name rows = None \<Longrightarrow> default_rows u (map (clear_others u name True) rows) = []"
  by (induction rows)
     (simp_all add: find_backend_def default_rows_def clear_others_def split: if_splits)

lemma add_backend_ok:
  assumes ok: "backends_ok (backends s)"
  shows "backends_ok (backends (snd (add_ai_backend u name d cfg now s)))"
proof (cases "json_dumps cfg")
  case None
  then show ?thesis using ok by (simp add: add_backend_rows)
next
  case (Some cj)
  show ?thesis
  proof (cases "find_backend u name (backends s)")
    case (Some e)
    then have e: "e \<in> set (backends s)" "b_user_id e = u" "b_backend_name e = name"
      by (auto dest: find_backend_SomeD)
    have "length (default_rows v (map (upsert_existing (b_id e) u name d cj) (backends s))) \<le> 1" for v
      by (rule upsert_existing_count[OF ok e])
    then show ?thesis using ok \<open>json_dumps cfg = Some cj\<close> Some
      by (simp add: add_backend_rows backends_ok_def comp_def)
  next
    case None
    let ?new = "\<lparr>b_id = next_id (map b_id (backends s)), b_user_id = u, b_backend_name = name,
                   b_is_default = d, b_config_json = cj, b_created_at = now, b_updated_at = now\<rparr>"
    let ?rows = "map (clear_others u name d) (backends s) @ [?new]"
    have fresh_id: "next_id (map b_id (backends s)) \<notin> b_id ` set (backends s)"
      using next_id_fresh[of "map b_id (backends s)"] by simp
    have "\<And>x. x \<in> set (backends s) \<Longrightarrow> \<not> (b_user_id x = u \<and> b_backend_name x = name)"
      using None find_None_D unfolding find_backend_def by fast
    then have fresh_key: "(u, name) \<notin> (\<lambda>b. (b_user_id b, b_backend_name b)) ` set (backends s)"
      by blast
    have cnt: "length (default_rows v ?rows) \<le> 1" for v
    proof (cases "v = u \<and> d")
      case True
      then show ?thesis using clear_others_none[OF None] by (simp add: default_rows_def)
    next
      case False
      have "length (default_rows v ?rows) = length (default_rows v (map (clear_others u name d) (backends s)))"
        using False by (auto simp: default_rows_def)
      also have "\<dots> \<le> length (default_rows v (backends s))" by (rule clear_others_count)
      also have "\<dots> \<le> 1" using ok by (simp add: backends_ok_def)
      finally show ?thesis .
    qed
    have "backends (snd (add_ai_backend u name d cfg now s)) = ?rows"
      using \<open>json_dumps cfg = Some cj\<close> None by (simp add: add_backend_rows)
    moreover have "distinct (map b_id ?rows)"
      using ok fresh_id by (simp add: backends_ok_def comp_def)
    moreover have "distinct (map (\<lambda>b. (b_user_id b, b_backend_name b)) ?rows)"
      using ok fresh_key by (simp add: backends_ok_def comp_def)
    ultimately show ?thesis using cnt by (simp add: backends_ok_def)
  qed
qed

subsection \<open>Sequences of operations\<close>

lemma initial_system_ok: "system_ok initial_system"
  by (simp add: system_ok_def initial_system_def kubeconfs_ok_def backends_ok_def
        active_rows_def default_rows_def)

lemma apply_operation_ok: "system_ok sys \<Longrightarrow> system_ok (apply_operation op sys)"
  by (cases op; cases sys)
     (simp_all add: system_ok_def upload_ok set_active_ok add_backend_ok set_default_ok)

lemma run_operations_ok: "system_ok sys \<Longrightarrow> system_ok (run_operations ops sys)"
  unfolding run_operations_def
  by (induction ops arbitrary: sys) (simp_all add: apply_operation_ok)

lemma set_active_exact:
  assumes "distinct (map k_id (kubeconfs s))"
    and "set_active_kubeconfig filename u s = (Inr (), s')"
  shows "\<exists>t. find (\<lambda>k. k_filename k = filename \<and> k_user_id k = u) (kubeconfs s) = Some t \<and>
             active_rows u (kubeconfs s') = [t\<lparr>k_active := True\<rparr>]"
proof (cases "find (\<lambda>k. k_filename k = filename \<and> k_user_id k = u) (kubeconfs s)")
  case None
  then show ?thesis using assms(2) by (simp add: set_active_kubeconfig_def)
next
  case (Some t)
  then have t: "t \<in> set (kubeconfs s)" "k_user_id t = u" by (auto dest: find_SomeD)
  have "kubeconfs s' = activate_row (k_id t) (deactivate_all u (kubeconfs s))"
    using assms(2) Some by (auto simp: set_active_kubeconfig_def)
  then show ?thesis using Some activated_rows_exact[OF assms(1) t] by simp
qed

lemma set_default_exact:
  assumes "distinct (map b_id (backends s))"
    and "set_default_ai_backend u name s = (Inr True, s')"
  shows "\<exists>t. find_backend u name (backends s) = Some t \<and>
             default_rows u (backends s') = [t\<lparr>b_is_default := True\<rparr>]"
proof (cases "find_backend u name (backends s)")
  case None
  then show ?thesis using assms(2) by (simp add: set_default_ai_backend_def)
next
  case (Some t)
  then have t: "t \<in> set (backends s)" "b_user_id t = u" by (auto dest: find_backend_SomeD)
  have "backends s' = mark_default (b_id t) u (backends s)"
    using assms(2) set_default_rows[OF Some] by auto
  then show ?thesis using Some mark_default_exact[OF assms(1) t] by simp
qed

text \<open>
  C2. For every owner and every sequence of uploads, activations, backend upserts and
  set-default calls run from the empty databases, at most one credential of the owner is
  active and at most one backend configuration of the owner is the default. An
  activation (or set-default) that succeeds in such a state found its target row, and
  afterwards the owner's flagged rows are exactly that row with the flag set.
\<close>

theorem single_flag_per_owner:
  "length (active_rows u (kubeconfs (fst (run_operations ops initial_system)))) \<le> 1 \<and>
   length (default_rows u (backends (snd (run_operations ops initial_system)))) \<le> 1 \<and>
   (\<forall>filename k'.
      set_active_kubeconfig filename u (fst (run_operations ops initial_system)) = (Inr (), k') \<longrightarrow>
      (\<exists>t. find (\<lambda>k. k_filename k = filename \<and> k_user_id k = u)
                (kubeconfs (fst (run_operations ops initial_system))) = Some t \<and>
           active_rows u (kubeconfs k') = [t\<lparr>k_active := True\<rparr>])) \<and>
   (\<forall>name a'.
      set_default_ai_backend u name (snd (run_operations ops initial_system)) = (Inr True, a') \<longrightarrow>
      (\<exists>t. find_backend u name (backends (snd (run_operations ops initial_system))) = Some t \<and>
           default_rows u (backends a') = [t\<lparr>b_is_default := True\<rparr>]))"
proof -
  have ok: "system_ok (run_operations ops initial_system)"
    by (rule run_operations_ok[OF initial_system_ok])
  then have k: "kubeconfs_ok (kubeconfs (fst (run_operations ops initial_system)))"
    and b: "backends_ok (backends (snd (run_operations ops initial_system)))"
    by (simp_all add: system_ok_def)
  have 1: "length (active_rows u (kubeconfs (fst (run_operations ops initial_system)))) \<le> 1"
    using k by (simp add: kubeconfs_ok_def)
  have 2: "length (default_rows u (backends (snd (run_operations ops initial_system)))) \<le> 1"
    using b by (simp add: backends_ok_def)
  have dk: "distinct (map k_id (kubeconfs (fst (run_operations ops initial_system))))"
    using k by (simp add: kubeconfs_ok_def)
  have db: "distinct (map b_id (backends (snd (run_operations ops initial_system))))"
    using b by (simp add: backends_ok_def)
  show ?thesis
    using 1 2 set_active_exact[OF dk] set_default_exact[OF db] by blast
qed

lemma example_kubeconfs:
  "kubeconfs (fst (run_operations example_operations initial_system)) =
     [\<lparr>k_id = 1, k_filename = ''u1.yaml'', k_original_filename = ''config.yaml'', k_user_id = 7,
       k_active = False, k_path = ''uploaded_kubeconfigs/u1.yaml'', k_cluster_name = Some ''prod'',
       k_context_name = Some ''prod'', k_is_operator_installed = False, k_created_at = 1,
       k_updated_at = 1\<rparr>,
      \<lparr>k_id = 2, k_filename = ''u2.yaml'', k_original_filename = ''config.yaml'', k_user_id = 7,
       k_active = True, k_path = ''uploaded_kubeconfigs/u2.yaml'', k_cluster_name = Some ''prod'',
       k_context_name = Some ''prod'', k_is_operator_installed = False, k_created_at = 2,
       k_updated_at = 2\<rparr>]"
  by (simp add: run_operations_def example_operations_def initial_system_def
       upload_kubeconfig_def Let_def splitext_ext_def path_join_def UPLOAD_DIR_def
       execute_command_def probe_command_def shlex_split_def shlex_whitespace_def
       shlex_escape_def shlex_quote_char_def emit_def example_kubectl_def strip_prod
       next_id_def set_active_kubeconfig_def activate_row_def deactivate_all_def
       add_ai_backend_def find_backend_def json_dumps_def)

lemma example_backends:
  "backends (snd (run_operations example_operations initial_system)) =
     [\<lparr>b_id = 1, b_user_id = 7, b_backend_name = ''openai'', b_is_default = False,
       b_config_json = JsonText (PDict [(''model'', PStr ''gpt-4'')]),
       b_created_at = 3, b_updated_at = 3\<rparr>,
      \<lparr>b_id = 2, b_user_id = 7, b_backend_name = ''ollama'', b_is_default = True,
       b_config_json = JsonText (PDict [(''model'', PStr ''llama3'')]),
       b_created_at = 4, b_updated_at = 4\<rparr>]"
  by (simp add: run_operations_def example_operations_def initial_system_def
       upload_kubeconfig_def Let_def splitext_ext_def path_join_def UPLOAD_DIR_def
       execute_command_def probe_command_def shlex_split_def shlex_whitespace_def
       shlex_escape_def shlex_quote_char_def emit_def example_kubectl_def strip_prod
       next_id_def set_active_kubeconfig_def activate_row_def deactivate_all_def
       add_ai_backend_def find_backend_def json_dumps_def)

theorem single_flag_per_owner_witness:
  "length (active_rows 7 (kubeconfs (fst (run_operations example_operations initial_system)))) \<le> 1 \<and>
   length (default_rows 7 (backends (snd (run_operations example_operations initial_system)))) \<le> 1 \<and>
   map k_filename (active_rows 7 (kubeconfs (fst (run_operations example_operations initial_system)))) = [''u2.yaml''] \<and>
   map b_backend_name (default_rows 7 (backends (snd (run_operations example_operations initial_system)))) = [''ollama''] \<and>
   fst (set_active_kubeconfig ''u1.yaml'' 7 (fst (run_operations example_operations initial_system))) = Inr () \<and>
   map k_filename (active_rows 7 (kubeconfs (snd (set_active_kubeconfig ''u1.yaml'' 7
       (fst (run_operations example_operations initial_system)))))) = [''u1.yaml''] \<and>
   fst (set_default_ai_backend 7 ''openai'' (snd (run_operations example_operations initial_system))) = Inr True \<and>
   map b_backend_name (default_rows 7 (backends (snd (set_default_ai_backend 7 ''openai''
       (snd (run_operations example_operations initial_system)))))) = [''openai'']"
  using single_flag_per_owner[of 7 example_operations]
  by (simp add: example_kubeconfs example_backends set_active_kubeconfig_def activate_row_def
        deactivate_all_def set_default_ai_backend_def mark_default_def find_backend_def
        active_rows_def default_rows_def)

text \<open>
  C3. When no row of the owner carries the identifier (no such row at all, or only rows
  of other owners), activation and set-default answer 404 and return the state they were
  given: no flag of any row is written.
\<close>

theorem activation_not_found_leaves_state:
  "((\<forall>k\<in>set (kubeconfs s). k_filename k = filename \<longrightarrow> k_user_id k \<noteq> u) \<longrightarrow>
      set_active_kubeconfig filename u s = (Inl (HTTPException 404), s)) \<and>
   ((\<forall>b\<in>set (backends a). b_backend_name b = name \<longrightarrow> b_user_id b \<noteq> u) \<longrightarrow>
      set_default_ai_backend u name a = (Inl (HTTPException 404), a))"
proof -
  have "find (\<lambda>k. k_filename k = filename \<and> k_user_id k = u) (kubeconfs s) = None"
    if "\<forall>k\<in>set (kubeconfs s). k_filename k = filename \<longrightarrow> k_user_id k \<noteq> u"
    using that by (auto simp: find_None_iff)
  moreover have "find_backend u name (backends a) = None"
    if "\<forall>b\<in>set (backends a). b_backend_name b = name \<longrightarrow> b_user_id b \<noteq> u"
    using that by (auto simp: find_backend_def find_None_iff)
  ultimately show ?thesis
    by (simp add: set_active_kubeconfig_def set_default_ai_backend_def)
qed

theorem activation_not_found_leaves_state_witness:
  "map k_user_id (filter (\<lambda>k. k_filename k = ''a.yaml'') (kubeconfs example_kubeconfig_service)) = [7] \<and>
   set_active_kubeconfig ''a.yaml'' 8 example_kubeconfig_service =
     (Inl (HTTPException 404), example_kubeconfig_service) \<and>
   map b_user_id (filter (\<lambda>b. b_backend_name b = ''ollama'') (backends example_k8sgpt_service)) = [7] \<and>
   set_default_ai_backend 8 ''ollama'' example_k8sgpt_service =
     (Inl (HTTPException 404), example_k8sgpt_service)"
  using activation_not_found_leaves_state
          [of example_kubeconfig_service "''a.yaml''" 8 example_k8sgpt_service "''ollama''"]
  by (simp add: example_kubeconfig_service_def example_kubeconf_def example_k8sgpt_service_def
        example_backend_def)

text \<open>
  C10. Activation and set-default for one owner leave the rows of every other owner as
  they were, in every field: the rows whose owner differs from the caller are the same
  list before and after. The bulk update is filtered by the caller's \<open>user_id\<close>, and the
  target row is the caller's own; primary keys are distinct. The files on disk, the
  analysis results and the cache are not written either.
\<close>

theorem activation_leaves_other_owners:
  "(distinct (map k_id (kubeconfs s)) \<longrightarrow>
      filter (\<lambda>k. k_user_id k \<noteq> u) (kubeconfs (snd (set_active_kubeconfig filename u s))) =
      filter (\<lambda>k. k_user_id k \<noteq> u) (kubeconfs s) \<and>
      disk (snd (set_active_kubeconfig filename u s)) = disk s) \<and>
   (distinct (map b_id (backends a)) \<longrightarrow>
      filter (\<lambda>b. b_user_id b \<noteq> u) (backends (snd (set_default_ai_backend u name a))) =
      filter (\<lambda>b. b_user_id b \<noteq> u) (backends a) \<and>
      analysis_results (snd (set_default_ai_backend u name a)) = analysis_results a \<and>
      redis_cache (snd (set_default_ai_backend u name a)) = redis_cache a)"
proof -
  have "filter (\<lambda>k. k_user_id k \<noteq> u) (kubeconfs (snd (set_active_kubeconfig filename u s))) =
        filter (\<lambda>k. k_user_id k \<noteq> u) (kubeconfs s) \<and>
        disk (snd (set_active_kubeconfig filename u s)) = disk s"
    if d: "distinct (map k_id (kubeconfs s))"
  proof (cases "find (\<lambda>k. k_filename k = filename \<and> k_user_id k = u) (kubeconfs s)")
    case None
    then show ?thesis by (simp add: set_active_kubeconfig_def)
  next
    case (Some t)
    then have "t \<in> set (kubeconfs s)" "k_user_id t = u" by (auto dest: find_SomeD)
    then show ?thesis using Some activated_rows_other[OF d]
      by (simp add: set_active_kubeconfig_def)
  qed
  moreover have "filter (\<lambda>b. b_user_id b \<noteq> u) (backends (snd (set_default_ai_backend u name a))) =
      filter (\<lambda>b. b_user_id b \<noteq> u) (backends a) \<and>
      analysis_results (snd (set_default_ai_backend u name a)) = analysis_results a \<and>
      redis_cache (snd (set_default_ai_backend u name a)) = redis_cache a"
    if d: "distinct (map b_id (backends a))"
  proof (cases "find_backend u name (backends a)")
    case None
    then show ?thesis by (simp add: set_default_ai_backend_def)
  next
    case (Some t)
    then have "t \<in> set (backends a)" "b_user_id t = u" by (auto dest: find_backend_SomeD)
    then show ?thesis using Some mark_default_other[OF d]
      by (simp add: set_default_ai_backend_def)
  qed
  ultimately show ?thesis by blast
qed

theorem activation_leaves_other_owners_witness:
  "fst (set_active_kubeconfig ''b.yaml'' 7 example_kubeconfig_service) = Inr () \<and>
   filter (\<lambda>k. k_user_id k \<noteq> 7) (kubeconfs (snd (set_active_kubeconfig ''b.yaml'' 7 example_kubeconfig_service)))
     = [example_kubeconf 3 ''c.yaml'' 8 True] \<and>
   fst (set_default_ai_backend 7 ''ollama'' example_k8sgpt_service) = Inr True \<and>
   filter (\<lambda>b. b_user_id b \<noteq> 7) (backends (snd (set_default_ai_backend 7 ''ollama'' example_k8sgpt_service)))
     = [example_backend 3 ''openai'' 8 True]"
  using activation_leaves_other_owners
          [of example_kubeconfig_service 7 "''b.yaml''" example_k8sgpt_service "''ollama''"]
  by (simp add: example_kubeconfig_service_def example_kubeconf_def example_k8sgpt_service_def
        example_backend_def set_active_kubeconfig_def set_default_ai_backend_def find_backend_def)

text \<open>
  C7. Removing a credential whose file is no longer on disk deletes its row (the row is
  gone, every row with another primary key stays) and succeeds, whatever \<open>os.remove\<close>
  would have done. When no row of the owner carries the filename, the answer is 404 and the
  state is unchanged.
\<close>

theorem remove_with_absent_file:
  "(find (\<lambda>k. k_filename k = filename \<and> k_user_id k = u) (kubeconfs s) = Some t \<and>
    \<not> path_exists s (k_path t) \<longrightarrow>
      remove_kubeconfig removable filename u s =
        (Inr (), s\<lparr>kubeconfs := delete_row (k_id t) (kubeconfs s)\<rparr>) \<and>
      t \<notin> set (delete_row (k_id t) (kubeconfs s)) \<and>
      (\<forall>k. k_id k \<noteq> k_id t \<longrightarrow> (k \<in> set (delete_row (k_id t) (kubeconfs s)) \<longleftrightarrow> k \<in> set (kubeconfs s)))) \<and>
   ((\<forall>k\<in>set (kubeconfs s). k_filename k = filename \<longrightarrow> k_user_id k \<noteq> u) \<longrightarrow>
      remove_kubeconfig removable filename u s = (Inl (HTTPException 404), s))"
proof -
  have "find (\<lambda>k. k_filename k = filename \<and> k_user_id k = u) (kubeconfs s) = None"
    if "\<forall>k\<in>set (kubeconfs s). k_filename k = filename \<longrightarrow> k_user_id k \<noteq> u"
    using that by (auto simp: find_None_iff)
  then show ?thesis
    by (auto simp: remove_kubeconfig_def Let_def delete_row_def)
qed

theorem remove_with_absent_file_witness:
  "\<not> path_exists example_kubeconfig_service ''uploaded_kubeconfigs/a.yaml'' \<and>
   remove_kubeconfig True ''a.yaml'' 7 example_kubeconfig_service =
     (Inr (), example_kubeconfig_service
        \<lparr>kubeconfs := [example_kubeconf 2 ''b.yaml'' 7 False, example_kubeconf 3 ''c.yaml'' 8 True]\<rparr>) \<and>
   remove_kubeconfig True ''a.yaml'' 8 example_kubeconfig_service =
     (Inl (HTTPException 404), example_kubeconfig_service) \<and>
   remove_kubeconfig True ''zzz.yaml'' 7 example_kubeconfig_service =
     (Inl (HTTPException 404), example_kubeconfig_service)"
  using remove_with_absent_file
          [of "''a.yaml''" 7 example_kubeconfig_service "example_kubeconf 1 ''a.yaml'' 7 True" True]
        remove_with_absent_file
          [of "''a.yaml''" 8 example_kubeconfig_service "example_kubeconf 1 ''a.yaml'' 7 True" True]
        remove_with_absent_file
          [of "''zzz.yaml''" 7 example_kubeconfig_service "example_kubeconf 1 ''a.yaml'' 7 True" True]
  by (simp add: example_kubeconfig_service_def example_kubeconf_def path_exists_def delete_row_def)

text \<open>
  C8. One run of \<open>validate_kubeconfigs\<close> keeps every row in its place (same length,
  same primary keys), does not touch the disk, sets \<open>active\<close> to false on each row whose
  file does not exist, and leaves each row whose file exists as it was.
\<close>

theorem liveness_sweep:
  "length (kubeconfs (validate_kubeconfigs s)) = length (kubeconfs s) \<and>
   map k_id (kubeconfs (validate_kubeconfigs s)) = map k_id (kubeconfs s) \<and>
   disk (validate_kubeconfigs s) = disk s \<and>
   (\<forall>i < length (kubeconfs s).
      (\<not> path_exists s (k_path (kubeconfs s ! i)) \<longrightarrow>
         kubeconfs (validate_kubeconfigs s) ! i = (kubeconfs s ! i)\<lparr>k_active := False\<rparr>) \<and>
      (path_exists s (k_path (kubeconfs s ! i)) \<longrightarrow>
         kubeconfs (validate_kubeconfigs s) ! i = kubeconfs s ! i))"
  by (simp add: validate_kubeconfigs_def comp_def)

theorem liveness_sweep_witness:
  "\<not> path_exists example_kubeconfig_service ''uploaded_kubeconfigs/a.yaml'' \<and>
   path_exists example_kubeconfig_service ''uploaded_kubeconfigs/c.yaml'' \<and>
   kubeconfs (validate_kubeconfigs example_kubeconfig_service) =
     [example_kubeconf 1 ''a.yaml'' 7 False, example_kubeconf 2 ''b.yaml'' 7 False,
      example_kubeconf 3 ''c.yaml'' 8 True]"
  using liveness_sweep[of example_kubeconfig_service]
  by (simp add: example_kubeconfig_service_def example_kubeconf_def path_exists_def
        validate_kubeconfigs_def)

section \<open>The command executor and shell metacharacters\<close>

text \<open>
  C1. The claim fails on the code. The namespace \<open>; rm -rf /\<close> is pasted into the
  command text and \<open>shlex.split\<close> cuts that text at its blanks: the program receives the
  four arguments \<open>;\<close>, \<open>rm\<close>, \<open>-rf\<close>, \<open>/\<close> in place of one, eleven arguments in all where
  a namespace without blanks gives eight. No shell runs, but the value is not one token
  and the argument count changes.
\<close>

theorem analyze_command_splits_namespace:
  "shlex_split (analyze_command (default_parameters\<lparr>namespace := Some ''; rm -rf /''\<rparr>)
                  ''/data/kubeconfig.yaml'') =
     Some [''k8sgpt'', ''analyze'', ''--namespace'', '';'', ''rm'', ''-rf'', ''/'',
           ''--output'', ''json'', ''--kubeconfig'', ''/data/kubeconfig.yaml''] \<and>
   shlex_split (analyze_command (default_parameters\<lparr>namespace := Some ''default''\<rparr>)
                  ''/data/kubeconfig.yaml'') =
     Some [''k8sgpt'', ''analyze'', ''--namespace'', ''default'',
           ''--output'', ''json'', ''--kubeconfig'', ''/data/kubeconfig.yaml'']"
  by (simp add: shlex_split_def analyze_command_def default_parameters_def shlex_whitespace_def
        shlex_escape_def shlex_quote_char_def emit_def)

text \<open>
  The same cut lets a value carry a flag of its own: this namespace gives the program a
  second \<open>--kubeconfig\<close> argument.
\<close>

lemma analyze_command_injected_flag:
  "shlex_split (analyze_command (default_parameters\<lparr>namespace := Some ''x --kubeconfig /other''\<rparr>)
                  ''/data/kubeconfig.yaml'') =
     Some [''k8sgpt'', ''analyze'', ''--namespace'', ''x'', ''--kubeconfig'', ''/other'',
           ''--output'', ''json'', ''--kubeconfig'', ''/data/kubeconfig.yaml'']"
  by (simp add: shlex_split_def analyze_command_def default_parameters_def shlex_whitespace_def
        shlex_escape_def shlex_quote_char_def emit_def)

section \<open>Upload\<close>

lemma upload_open_failed:
  "upload_kubeconfig run OpenFailed file_name content uuid now user s = (Inl (HTTPException 500), s)"
  by (simp add: upload_kubeconfig_def Let_def)

lemma upload_disk:
  "disk (snd (upload_kubeconfig run Written file_name content uuid now user s)) =
     (disk s)(upload_path uuid file_name \<mapsto> content)"
  by (simp add: upload_kubeconfig_def upload_path_def Let_def split: sum.splits option.splits)

lemma upload_failed_probe:
  assumes "execute_command run (probe_command (upload_path uuid file_name) ''{.clusters[0].name}'')
             = Inl e \<or>
           execute_command run (probe_command (upload_path uuid file_name) ''{.contexts[0].name}'')
             = Inl e"
  shows "fst (upload_kubeconfig run written file_name content uuid now user s) = Inl (HTTPException 500) \<and>
         kubeconfs (snd (upload_kubeconfig run written file_name content uuid now user s)) = kubeconfs s"
  using assms
  by (cases written)
     (auto simp: upload_kubeconfig_def upload_path_def Let_def split: sum.splits option.splits)

lemma upload_commits:
  assumes "execute_command run (probe_command (upload_path uuid file_name) ''{.clusters[0].name}'')
             = Inr ra"
    and "stdout_stripped ra = Some ca"
    and "execute_command run (probe_command (upload_path uuid file_name) ''{.contexts[0].name}'')
             = Inr rb"
    and "stdout_stripped rb = Some cb"
  shows "upload_kubeconfig run Written file_name content uuid now user s =
           (Inr \<lparr>k_id = next_id (map k_id (kubeconfs s)),
                 k_filename = uuid @ splitext_ext file_name,
                 k_original_filename = file_name, k_user_id = user, k_active = False,
                 k_path = upload_path uuid file_name,
                 k_cluster_name = Some ca, k_context_name = Some cb,
                 k_is_operator_installed = False, k_created_at = now, k_updated_at = now\<rparr>,
            s\<lparr>disk := (disk s)(upload_path uuid file_name \<mapsto> content),
              kubeconfs := kubeconfs s @
                [\<lparr>k_id = next_id (map k_id (kubeconfs s)),
                  k_filename = uuid @ splitext_ext file_name,
                  k_original_filename = file_name, k_user_id = user, k_active = False,
                  k_path = upload_path uuid file_name,
                  k_cluster_name = Some ca, k_context_name = Some cb,
                  k_is_operator_installed = False, k_created_at = now, k_updated_at = now\<rparr>]\<rparr>)"
  using assms by (simp add: upload_kubeconfig_def upload_path_def Let_def)

lemma upload_committed_only_then:
  assumes "fst (upload_kubeconfig run written file_name content uuid now user s) = Inr new"
  shows "written = Written \<and>
         (\<exists>ra rb ca cb.
            execute_command run (probe_command (upload_path uuid file_name) ''{.clusters[0].name}'')
              = Inr ra \<and> stdout_stripped ra = Some ca \<and>
            execute_command run (probe_command (upload_path uuid file_name) ''{.contexts[0].name}'')
              = Inr rb \<and> stdout_stripped rb = Some cb)"
  using assms
  by (cases written)
     (auto simp: upload_kubeconfig_def upload_path_def Let_def split: sum.splits option.splits)

lemma upload_error_status:
  assumes "fst (upload_kubeconfig run written file_name content uuid now user s) = Inl err"
  shows "err = HTTPException 500 \<and>
         kubeconfs (snd (upload_kubeconfig run written file_name content uuid now user s)) = kubeconfs s"
  using assms
  by (cases written)
     (auto simp: upload_kubeconfig_def upload_path_def Let_def split: sum.splits option.splits)

text \<open>
  C6, as the code has it. Upload writes the bytes to disk under the generated name and
  then probes the file twice. When a probe fails, the upload fails with status 500 and
  no row is committed; the written file stays on disk. When the bytes are written and
  both probes return an output (a dictionary whose \<open>stdout\<close> entry, if it has one, is
  text), the upload succeeds and commits exactly one row: \<open>active\<close> false, the owner, the
  path, and as cluster and context names the stripped outputs of the two probes, never
  null. A row is committed in no other case, and every failure is status 500 with the
  table unchanged; when \<open>open\<close> fails nothing is written at all.
\<close>

theorem upload_probes_then_commits:
  "(upload_kubeconfig run OpenFailed file_name content uuid now user s =
      (Inl (HTTPException 500), s)) \<and>
   (disk (snd (upload_kubeconfig run Written file_name content uuid now user s)) =
      (disk s)(upload_path uuid file_name \<mapsto> content)) \<and>
   ((execute_command run (probe_command (upload_path uuid file_name) ''{.clusters[0].name}'')
       = Inl e \<or>
     execute_command run (probe_command (upload_path uuid file_name) ''{.contexts[0].name}'')
       = Inl e) \<longrightarrow>
    fst (upload_kubeconfig run written file_name content uuid now user s) = Inl (HTTPException 500) \<and>
    kubeconfs (snd (upload_kubeconfig run written file_name content uuid now user s)) = kubeconfs s) \<and>
   (execute_command run (probe_command (upload_path uuid file_name) ''{.clusters[0].name}'')
       = Inr ra \<and> stdout_stripped ra = Some ca \<and>
    execute_command run (probe_command (upload_path uuid file_name) ''{.contexts[0].name}'')
       = Inr rb \<and> stdout_stripped rb = Some cb \<longrightarrow>
    upload_kubeconfig run Written file_name content uuid now user s =
      (Inr \<lparr>k_id = next_id (map k_id (kubeconfs s)),
            k_filename = uuid @ splitext_ext file_name,
            k_original_filename = file_name, k_user_id = user, k_active = False,
            k_path = upload_path uuid file_name,
            k_cluster_name = Some ca, k_context_name = Some cb,
            k_is_operator_installed = False, k_created_at = now, k_updated_at = now\<rparr>,
       s\<lparr>disk := (disk s)(upload_path uuid file_name \<mapsto> content),
         kubeconfs := kubeconfs s @
           [\<lparr>k_id = next_id (map k_id (kubeconfs s)),
             k_filename = uuid @ splitext_ext file_name,
             k_original_filename = file_name, k_user_id = user, k_active = False,
             k_path = upload_path uuid file_name,
             k_cluster_name = Some ca, k_context_name = Some cb,
             k_is_operator_installed = False, k_created_at = now, k_updated_at = now\<rparr>]\<rparr>)) \<and>
   (fst (upload_kubeconfig run written file_name content uuid now user s) = Inr new \<longrightarrow>
    written = Written \<and>
    (\<exists>qa qb da db.
       execute_command run (probe_command (upload_path uuid file_name) ''{.clusters[0].name}'')
         = Inr qa \<and> stdout_stripped qa = Some da \<and>
       execute_command run (probe_command (upload_path uuid file_name) ''{.contexts[0].name}'')
         = Inr qb \<and> stdout_stripped qb = Some db)) \<and>
   (fst (upload_kubeconfig run written file_name content uuid now user s) = Inl err \<longrightarrow>
    err = HTTPException 500 \<and>
    kubeconfs (snd (upload_kubeconfig run written file_name content uuid now user s)) = kubeconfs s)"
  (is "?a \<and> ?b \<and> (?failed \<longrightarrow> ?rejected) \<and> (?probed \<longrightarrow> ?committed) \<and>
       (?ok \<longrightarrow> ?only) \<and> (?err \<longrightarrow> ?status)")
proof -
  have a: ?a by (rule upload_open_failed)
  have b: ?b by (rule upload_disk)
  have c: "?failed \<longrightarrow> ?rejected" by (rule impI) (rule upload_failed_probe)
  have d: "?probed \<longrightarrow> ?committed"
  proof (rule impI)
    assume p: ?probed
    show ?committed
      by (rule upload_commits[OF conjunct1[OF p] conjunct1[OF conjunct2[OF p]]
            conjunct1[OF conjunct2[OF conjunct2[OF p]]]
            conjunct2[OF conjunct2[OF conjunct2[OF p]]]])
  qed
  have e: "?ok \<longrightarrow> ?only" by (rule impI) (rule upload_committed_only_then)
  have f: "?err \<longrightarrow> ?status" by (rule impI) (rule upload_error_status)
  show ?thesis by (rule conjI[OF a conjI[OF b conjI[OF c conjI[OF d conjI[OF e f]]]]])
qed

lemmas upload_eval =
  upload_kubeconfig_def Let_def splitext_ext_def path_join_def UPLOAD_DIR_def
  execute_command_def probe_command_def shlex_split_def shlex_whitespace_def
  shlex_escape_def shlex_quote_char_def emit_def strip_prod next_id_def

lemma example_upload_path: "upload_path ''u1'' ''config.yaml'' = ''uploaded_kubeconfigs/u1.yaml''"
  by (simp add: upload_path_def splitext_ext_def path_join_def UPLOAD_DIR_def)

lemma example_probe_fails:
  "execute_command failing_kubectl
     (probe_command (upload_path ''u1'' ''config.yaml'') ''{.clusters[0].name}'') =
   Inl (HTTPException 500)"
  by (simp add: example_upload_path execute_command_def probe_command_def shlex_split_def
        shlex_whitespace_def shlex_escape_def shlex_quote_char_def emit_def failing_kubectl_def)

lemma example_probe_succeeds:
  "execute_command example_kubectl
     (probe_command (upload_path ''u1'' ''config.yaml'') ''{.clusters[0].name}'') =
   Inr (PDict [(''stdout'', PStr ''prod'')])"
  "execute_command example_kubectl
     (probe_command (upload_path ''u1'' ''config.yaml'') ''{.contexts[0].name}'') =
   Inr (PDict [(''stdout'', PStr ''prod'')])"
  by (simp_all add: example_upload_path execute_command_def probe_command_def shlex_split_def
        shlex_whitespace_def shlex_escape_def shlex_quote_char_def emit_def example_kubectl_def)

theorem upload_probes_then_commits_witness:
  "execute_command failing_kubectl
     (probe_command (upload_path ''u1'' ''config.yaml'') ''{.clusters[0].name}'') =
     Inl (HTTPException 500) \<and>
   fst (upload_kubeconfig failing_kubectl Written ''config.yaml'' ''apiVersion: v1'' ''u1'' 1 7
          \<lparr>kubeconfs = [], disk = Map.empty\<rparr>) = Inl (HTTPException 500) \<and>
   kubeconfs (snd (upload_kubeconfig failing_kubectl Written ''config.yaml'' ''apiVersion: v1''
          ''u1'' 1 7 \<lparr>kubeconfs = [], disk = Map.empty\<rparr>)) = [] \<and>
   upload_kubeconfig example_kubectl Written ''config.yaml'' ''apiVersion: v1'' ''u1'' 1 7
          \<lparr>kubeconfs = [], disk = Map.empty\<rparr> =
     (Inr \<lparr>k_id = 1, k_filename = ''u1.yaml'', k_original_filename = ''config.yaml'',
           k_user_id = 7, k_active = False, k_path = ''uploaded_kubeconfigs/u1.yaml'',
           k_cluster_name = Some ''prod'', k_context_name = Some ''prod'',
           k_is_operator_installed = False, k_created_at = 1, k_updated_at = 1\<rparr>,
      \<lparr>kubeconfs =
         [\<lparr>k_id = 1, k_filename = ''u1.yaml'', k_original_filename = ''config.yaml'',
           k_user_id = 7, k_active = False, k_path = ''uploaded_kubeconfigs/u1.yaml'',
           k_cluster_name = Some ''prod'', k_context_name = Some ''prod'',
           k_is_operator_installed = False, k_created_at = 1, k_updated_at = 1\<rparr>],
       disk = [''uploaded_kubeconfigs/u1.yaml'' \<mapsto> ''apiVersion: v1'']\<rparr>) \<and>
   upload_kubeconfig example_kubectl OpenFailed ''config.yaml'' ''apiVersion: v1'' ''u1'' 1 7
          \<lparr>kubeconfs = [], disk = Map.empty\<rparr> =
     (Inl (HTTPException 500), \<lparr>kubeconfs = [], disk = Map.empty\<rparr>)"
proof -
  let ?s = "\<lparr>kubeconfs = [], disk = Map.empty\<rparr>"
  have strip: "stdout_stripped (PDict [(''stdout'', PStr ''prod'')]) = Some ''prod''"
    by (simp add: strip_prod)
  have failed: "fst (upload_kubeconfig failing_kubectl Written ''config.yaml'' ''apiVersion: v1''
                  ''u1'' 1 7 ?s) = Inl (HTTPException 500) \<and>
                kubeconfs (snd (upload_kubeconfig failing_kubectl Written ''config.yaml''
                  ''apiVersion: v1'' ''u1'' 1 7 ?s)) = kubeconfs ?s"
    using upload_probes_then_commits
            [where run = failing_kubectl and written = Written and file_name = "''config.yaml''"
               and content = "''apiVersion: v1''" and uuid = "''u1''" and now = 1 and user = 7
               and s = ?s and e = "HTTPException 500"]
          example_probe_fails
    by blast
  have committed: "upload_kubeconfig example_kubectl Written ''config.yaml'' ''apiVersion: v1''
                     ''u1'' 1 7 ?s =
      (Inr \<lparr>k_id = next_id (map k_id (kubeconfs ?s)),
            k_filename = ''u1'' @ splitext_ext ''config.yaml'',
            k_original_filename = ''config.yaml'', k_user_id = 7, k_active = False,
            k_path = upload_path ''u1'' ''config.yaml'',
            k_cluster_name = Some ''prod'', k_context_name = Some ''prod'',
            k_is_operator_installed = False, k_created_at = 1, k_updated_at = 1\<rparr>,
       ?s\<lparr>disk := (disk ?s)(upload_path ''u1'' ''config.yaml'' \<mapsto> ''apiVersion: v1''),
         kubeconfs := kubeconfs ?s @
           [\<lparr>k_id = next_id (map k_id (kubeconfs ?s)),
             k_filename = ''u1'' @ splitext_ext ''config.yaml'',
             k_original_filename = ''config.yaml'', k_user_id = 7, k_active = False,
             k_path = upload_path ''u1'' ''config.yaml'',
             k_cluster_name = Some ''prod'', k_context_name = Some ''prod'',
             k_is_operator_installed = False, k_created_at = 1, k_updated_at = 1\<rparr>]\<rparr>)"
    using upload_probes_then_commits
            [where run = example_kubectl and file_name = "''config.yaml''"
               and content = "''apiVersion: v1''" and uuid = "''u1''" and now = 1 and user = 7
               and s = ?s and ra = "PDict [(''stdout'', PStr ''prod'')]" and ca = "''prod''"
               and rb = "PDict [(''stdout'', PStr ''prod'')]" and cb = "''prod''"]
          example_probe_succeeds strip
    by blast
  have opened: "upload_kubeconfig example_kubectl OpenFailed ''config.yaml'' ''apiVersion: v1''
                  ''u1'' 1 7 ?s = (Inl (HTTPException 500), ?s)"
    using upload_probes_then_commits
            [where run = example_kubectl and file_name = "''config.yaml''"
               and content = "''apiVersion: v1''" and uuid = "''u1''" and now = 1 and user = 7
               and s = ?s]
    by blast
  show ?thesis
    using example_probe_fails failed committed opened
    by (simp add: example_upload_path next_id_def splitext_ext_def)
qed

text \<open>
  The claim as the specification states it fails: with a probe that exits with an error,
  the upload answers 500 and the table stays empty, so no record with null names is
  committed.
\<close>

theorem upload_probe_failure_counterexample:
  "fst (upload_kubeconfig failing_kubectl Written ''config.yaml'' ''apiVersion: v1'' ''u1'' 1 7
          \<lparr>kubeconfs = [], disk = Map.empty\<rparr>) = Inl (HTTPException 500) \<and>
   kubeconfs (snd (upload_kubeconfig failing_kubectl Written ''config.yaml'' ''apiVersion: v1''
          ''u1'' 1 7 \<lparr>kubeconfs = [], disk = Map.empty\<rparr>)) = []"
  using example_probe_fails
  by (simp add: upload_kubeconfig_def Let_def upload_path_def)


section \<open>The result cache\<close>

lemma json_dumps_Some: "json_dumps v = Some t \<Longrightarrow> t = JsonText v \<and> json_serializable v"
  by (simp add: json_dumps_def split: if_splits)

lemma find_append_fresh:
  "(\<And>x. x \<in> set xs \<Longrightarrow> \<not> P x) \<Longrightarrow> P a \<Longrightarrow> find P (xs @ [a]) = Some a"
  by (induction xs) auto

lemma cache_set_state:
  "snd (cache_set s now u key v) =
     (case redis_cache s of
        None \<Rightarrow> s
      | Some c \<Rightarrow> s\<lparr>redis_cache := Some (c(get_cache_key u key \<mapsto> (now + 3600, v)))\<rparr>)"
  by (simp add: cache_set_def CACHE_TTL_def split: option.splits)

lemma cache_set_tables:
  "analysis_results (snd (cache_set s now u key v)) = analysis_results s"
  "backends (snd (cache_set s now u key v)) = backends s"
  by (simp_all add: cache_set_state split: option.splits)

lemma store_success:
  assumes "run_k8sgpt_analysis env u p s = (Inr ar, s1)"
  shows "\<exists>path cn result.
           active_kubeconfig env = Inr (path, cn) \<and> path \<in> files env \<and>
           execute_command (run_program env) (analyze_command p path) = Inr result \<and>
           json_serializable result \<and>
           ar = \<lparr>ar_id = next_id (map ar_id (analysis_results s)), ar_user_id = u,
                 ar_cluster_name = cn, ar_namespace = namespace p, ar_result_id = uuid4 env,
                 ar_result_json = JsonText result, ar_created_at = clock env,
                 ar_parameters = JsonText (parameters_dict p)\<rparr> \<and>
           s1 = snd (cache_set (s\<lparr>analysis_results := analysis_results s @ [ar]\<rparr>) (clock env) u
                       (''analysis_result:'' @ uuid4 env)
                       (PDict [(''result_id'', PStr (uuid4 env)), (''result'', result),
                               (''parameters'', parameters_dict p)]))"
  using assms
  by (auto simp: run_k8sgpt_analysis_def Let_def
           split: sum.splits prod.splits if_splits option.splits dest!: json_dumps_Some)

lemma store_failure:
  "fst (run_k8sgpt_analysis env u p s) = Inl e \<Longrightarrow> snd (run_k8sgpt_analysis env u p s) = s"
  by (auto simp: run_k8sgpt_analysis_def Let_def
           split: sum.splits prod.splits if_splits option.splits)

lemma fetch_hit:
  "cache_get s now u (''analysis_result:'' @ rid) = Some v \<Longrightarrow> truthy v \<Longrightarrow>
   get_analysis_result s now u rid = (Inr v, s)"
  by (simp add: get_analysis_result_def)

lemma fetch_miss:
  "cache_get s now u (''analysis_result:'' @ rid) = None \<Longrightarrow>
   get_analysis_result s now u rid = read_from_database s now u rid"
  by (simp add: get_analysis_result_def)

lemma fetch_tables:
  "analysis_results (snd (get_analysis_result s now u rid)) = analysis_results s"
  "backends (snd (get_analysis_result s now u rid)) = backends s"
  by (simp_all add: get_analysis_result_def read_from_database_def Let_def cache_set_tables
        split: option.splits)

lemma fetch_from_database:
  assumes "cache_get s now u (''analysis_result:'' @ rid) = None"
    and "find (\<lambda>r. ar_user_id r = u \<and> ar_result_id r = rid) (analysis_results s) = Some ar"
  shows "get_analysis_result s now u rid =
           (Inr (result_dict ar),
            snd (cache_set s now u (''analysis_result:'' @ rid) (result_dict ar)))"
  using assms by (simp add: fetch_miss read_from_database_def Let_def)

lemma fetch_repopulates:
  assumes miss: "cache_get s now u (''analysis_result:'' @ rid) = None"
    and row: "find (\<lambda>r. ar_user_id r = u \<and> ar_result_id r = rid) (analysis_results s) = Some ar"
    and up: "redis_cache s \<noteq> None"
    and live: "t < now + 3600"
  shows "cache_get (snd (get_analysis_result s now u rid)) t u (''analysis_result:'' @ rid) =
           Some (result_dict ar)"
  using up live unfolding fetch_from_database[OF miss row]
  by (auto simp: cache_set_state cache_get_def)

lemma fetch_absent_not_found:
  assumes "cache_get s now u (''analysis_result:'' @ rid) = None"
    and "\<And>r. r \<in> set (analysis_results s) \<Longrightarrow> ar_result_id r = rid \<Longrightarrow> ar_user_id r \<noteq> u"
  shows "get_analysis_result s now u rid = (Inl (HTTPException 404), s)"
proof -
  have "find (\<lambda>r. ar_user_id r = u \<and> ar_result_id r = rid) (analysis_results s) = None"
    using assms(2) by (auto simp: find_None_iff)
  then show ?thesis using assms(1) by (simp add: fetch_miss read_from_database_def)
qed

lemma backend_of_other_owner_not_found:
  assumes "\<And>b. b \<in> set (backends s) \<Longrightarrow> b_backend_name b = name \<Longrightarrow> b_user_id b \<noteq> u"
  shows "get_ai_backend u name s = Inl (HTTPException 404)"
    and "delete_ai_backend u name s = (Inl (HTTPException 404), s)"
proof -
  have "find_backend u name (backends s) = None"
    using assms by (auto simp: find_backend_def find_None_iff)
  then show "get_ai_backend u name s = Inl (HTTPException 404)"
    and "delete_ai_backend u name s = (Inl (HTTPException 404), s)"
    by (simp_all add: get_ai_backend_def delete_ai_backend_def)
qed

subsection \<open>Cache keys are scoped by owner\<close>

lemma digit_cases: "d < 10 \<Longrightarrow> d \<in> {0, 1, 2, 3, 4, 5, 6, 7, 8, 9::nat}"
  by auto

lemma digit_char_value: "d < 10 \<Longrightarrow> digit_value (digit_char d) = d"
  using digit_cases[of d] by (auto simp: digit_value_def digit_char_def)

lemma digit_char_plain: "d < 10 \<Longrightarrow> digit_char d \<noteq> CHR '':'' \<and> digit_char d \<noteq> CHR ''-''"
  using digit_cases[of d] by (auto simp: digit_char_def)

lemma decimal_value_snoc: "decimal_value (ds @ [c]) = 10 * decimal_value ds + digit_value c"
  by (simp add: decimal_value_def)

lemma decimal_value_str_nat: "decimal_value (str_nat n) = n"
proof (induction n rule: str_nat.induct)
  case (1 n)
  show ?case
  proof (cases "n < 10")
    case True
    then show ?thesis
      by (subst str_nat.simps) (simp add: decimal_value_def digit_char_value)
  next
    case False
    then have "decimal_value (str_nat (n div 10)) = n div 10" using 1 by simp
    then show ?thesis using False
      by (subst str_nat.simps) (simp add: decimal_value_snoc digit_char_value)
  qed
qed

lemma str_nat_plain: "c \<in> set (str_nat n) \<Longrightarrow> c \<noteq> CHR '':'' \<and> c \<noteq> CHR ''-''"
proof (induction n rule: str_nat.induct)
  case (1 n)
  show ?case
  proof (cases "n < 10")
    case True
    then show ?thesis using "1.prems" digit_char_plain[of n]
      by (subst (asm) str_nat.simps) auto
  next
    case False
    then show ?thesis using 1 digit_char_plain[of "n mod 10"]
      by (subst (asm) (2) str_nat.simps) auto
  qed
qed

lemma str_nat_nonempty: "str_nat n \<noteq> []"
  by (subst str_nat.simps) simp

lemma str_nat_inj: "str_nat m = str_nat n \<Longrightarrow> m = n"
  by (metis decimal_value_str_nat)

lemma str_int_inj: "str_int i = str_int j \<Longrightarrow> i = j"
proof -
  assume eq: "str_int i = str_int j"
  have head: "hd (str_nat n) \<noteq> CHR ''-''" for n
    using str_nat_plain[of "hd (str_nat n)" n] str_nat_nonempty[of n] by simp
  show ?thesis
  proof (cases "i < 0"; cases "j < 0")
    assume "i < 0" "j < 0"
    then have "nat (- i) = nat (- j)" using eq str_nat_inj by (simp add: str_int_def)
    then show ?thesis using \<open>i < 0\<close> \<open>j < 0\<close> by simp
  next
    assume "i < 0" "\<not> j < 0"
    then have "CHR ''-'' # str_nat (nat (- i)) = str_nat (nat j)" using eq by (simp add: str_int_def)
    then show ?thesis using head[of "nat j"] by (metis list.sel(1))
  next
    assume "\<not> i < 0" "j < 0"
    then have "str_nat (nat i) = CHR ''-'' # str_nat (nat (- j))" using eq by (simp add: str_int_def)
    then show ?thesis using head[of "nat i"] by (metis list.sel(1))
  next
    assume "\<not> i < 0" "\<not> j < 0"
    then have "nat i = nat j" using eq str_nat_inj by (simp add: str_int_def)
    then show ?thesis using \<open>\<not> i < 0\<close> \<open>\<not> j < 0\<close> by simp
  qed
qed

lemma str_int_no_colon: "CHR '':'' \<notin> set (str_int i)"
  using str_nat_plain by (auto simp: str_int_def)

lemma split_at_first:
  "c \<notin> set a \<Longrightarrow> c \<notin> set b \<Longrightarrow> a @ c # k = b @ c # l \<Longrightarrow> a = b \<and> k = l"
proof (induction a arbitrary: b)
  case Nil
  then show ?case by (cases b) auto
next
  case (Cons x xs)
  then show ?case by (cases b) auto
qed

lemma get_cache_key_inj:
  assumes "get_cache_key u k = get_cache_key v l"
  shows "u = v \<and> k = l"
proof -
  have "str_int u @ CHR '':'' # k = str_int v @ CHR '':'' # l"
    using assms by (simp add: get_cache_key_def)
  then have "str_int u = str_int v \<and> k = l"
    by (rule split_at_first[OF str_int_no_colon str_int_no_colon])
  then show ?thesis using str_int_inj by blast
qed

lemma store_keeps_cache_keys:
  assumes "cache_keys_ok s"
  shows "cache_keys_ok (snd (run_k8sgpt_analysis env u p s))"
proof (cases "fst (run_k8sgpt_analysis env u p s)")
  case (Inl e)
  then show ?thesis using assms by (simp add: store_failure)
next
  case (Inr ar)
  then have "run_k8sgpt_analysis env u p s = (Inr ar, snd (run_k8sgpt_analysis env u p s))"
    by (simp add: prod_eq_iff)
  from store_success[OF this] obtain result where
    ar: "ar_user_id ar = u" "ar_result_id ar = uuid4 env"
    and s1: "snd (run_k8sgpt_analysis env u p s) =
             snd (cache_set (s\<lparr>analysis_results := analysis_results s @ [ar]\<rparr>) (clock env) u
                       (''analysis_result:'' @ uuid4 env)
                       (PDict [(''result_id'', PStr (uuid4 env)), (''result'', result),
                               (''parameters'', parameters_dict p)]))"
    by auto
  show ?thesis
    unfolding s1 cache_set_state
    using assms ar
    by (auto simp: cache_keys_ok_def split: option.splits if_splits)
qed

lemma read_keeps_cache_keys:
  assumes "cache_keys_ok s"
  shows "cache_keys_ok (snd (read_from_database s now u rid))"
proof (cases "find (\<lambda>r. ar_user_id r = u \<and> ar_result_id r = rid) (analysis_results s)")
  case None
  then show ?thesis using assms by (simp add: read_from_database_def)
next
  case (Some ar)
  then have "ar \<in> set (analysis_results s)" "ar_user_id ar = u" "ar_result_id ar = rid"
    by (auto dest: find_SomeD)
  then show ?thesis
    using assms Some
    by (auto simp: read_from_database_def Let_def cache_set_state cache_keys_ok_def
             split: option.splits if_splits)
qed

lemma fetch_keeps_cache_keys:
  "cache_keys_ok s \<Longrightarrow> cache_keys_ok (snd (get_analysis_result s now u rid))"
  by (simp add: get_analysis_result_def read_keeps_cache_keys split: option.splits)

lemma transform_keeps_cache_keys:
  "cache_keys_ok s \<Longrightarrow> cache_keys_ok (snd (transform_results s now u results))"
proof (induction results arbitrary: s)
  case Nil
  then show ?case by simp
next
  case (Cons r rs)
  have step: "cache_keys_ok (snd (get_analysis_result s now u rid))" for rid
    using Cons.prems by (rule fetch_keeps_cache_keys)
  show ?case
    using Cons.prems Cons.IH[OF step]
    by (auto split: option.splits pyval.splits prod.splits sum.splits)
       (metis snd_conv step)+
qed

lemma listing_keeps_cache_keys:
  "cache_keys_ok s \<Longrightarrow> cache_keys_ok (snd (list_analyses s now u limit offset))"
  by (simp add: list_analyses_def transform_keeps_cache_keys)

lemma fresh_cache_keys_ok: "cache_keys_ok (fresh_service available)"
  by (simp add: cache_keys_ok_def fresh_service_def)

lemma reachable_cache_keys_ok:
  "cache_keys_ok s \<Longrightarrow> cache_keys_ok (run_analysis_operations ops s)"
  unfolding run_analysis_operations_def
proof (induction ops arbitrary: s)
  case Nil
  then show ?case by simp
next
  case (Cons op ops)
  have "cache_keys_ok (apply_analysis_operation op s)"
    using Cons.prems
    by (cases op)
       (simp_all add: store_keeps_cache_keys fetch_keeps_cache_keys listing_keeps_cache_keys)
  then show ?case using Cons.IH by simp
qed

lemma fetch_of_other_owner_not_found:
  assumes ok: "cache_keys_ok s"
    and other: "\<And>r. r \<in> set (analysis_results s) \<Longrightarrow> ar_result_id r = rid \<Longrightarrow> ar_user_id r \<noteq> u"
  shows "get_analysis_result s now u rid = (Inl (HTTPException 404), s)"
proof (rule fetch_absent_not_found[OF _ other])
  show "cache_get s now u (''analysis_result:'' @ rid) = None"
  proof (cases "redis_cache s")
    case None
    then show ?thesis by (simp add: cache_get_def)
  next
    case (Some c)
    have "c (get_cache_key u (''analysis_result:'' @ rid)) = None"
    proof (rule ccontr)
      assume "c (get_cache_key u (''analysis_result:'' @ rid)) \<noteq> None"
      then obtain e where "c (get_cache_key u (''analysis_result:'' @ rid)) = Some e" by auto
      then obtain r where r: "r \<in> set (analysis_results s)"
        and key: "get_cache_key u (''analysis_result:'' @ rid) =
                  get_cache_key (ar_user_id r) (''analysis_result:'' @ ar_result_id r)"
        using ok Some unfolding cache_keys_ok_def by blast
      from get_cache_key_inj[OF key] have "ar_user_id r = u" "ar_result_id r = rid" by auto
      then show False using other[OF r] by simp
    qed
    then show ?thesis using Some by (simp add: cache_get_def)
  qed
qed

text \<open>
  C5. Let a run of the analysis succeed for an owner and store the row \<open>ar\<close>, with a
  result identifier that no earlier row of the owner carries. A later fetch of that
  identifier by the owner succeeds at every time, and the \<open>result\<close> entry of what it
  returns is the stored payload. While the cache is connected and the entry has not
  expired, the answer is the dictionary the store wrote into the cache; when the cache is
  not connected or the entry has expired, the answer is built from the database row.
\<close>

theorem fetch_after_store:
  assumes store: "run_k8sgpt_analysis env u p s = (Inr ar, s1)"
    and fresh: "\<forall>r\<in>set (analysis_results s). ar_user_id r = u \<longrightarrow> ar_result_id r \<noteq> uuid4 env"
  shows "(\<exists>d. fst (get_analysis_result s1 now u (ar_result_id ar)) = Inr d \<and>
              subscript d ''result'' = Some (json_loads (ar_result_json ar))) \<and>
         (redis_cache s \<noteq> None \<and> now < clock env + 3600 \<longrightarrow>
            fst (get_analysis_result s1 now u (ar_result_id ar)) =
              Inr (PDict [(''result_id'', PStr (ar_result_id ar)),
                          (''result'', json_loads (ar_result_json ar)),
                          (''parameters'', json_loads (ar_parameters ar))])) \<and>
         (redis_cache s = None \<or> clock env + 3600 \<le> now \<longrightarrow>
            fst (get_analysis_result s1 now u (ar_result_id ar)) =
              Inr (PDict [(''result_id'', PStr (ar_result_id ar)),
                          (''cluster_name'', PStr (ar_cluster_name ar)),
                          (''namespace'', opt_str (ar_namespace ar)),
                          (''result'', json_loads (ar_result_json ar)),
                          (''created_at'', PDatetime (ar_created_at ar)),
                          (''parameters'', json_loads (ar_parameters ar))]))"
proof -
  obtain path cn result where
    ar: "ar = \<lparr>ar_id = next_id (map ar_id (analysis_results s)), ar_user_id = u,
                 ar_cluster_name = cn, ar_namespace = namespace p, ar_result_id = uuid4 env,
                 ar_result_json = JsonText result, ar_created_at = clock env,
                 ar_parameters = JsonText (parameters_dict p)\<rparr>"
    and s1: "s1 = snd (cache_set (s\<lparr>analysis_results := analysis_results s @ [ar]\<rparr>) (clock env) u
                       (''analysis_result:'' @ uuid4 env)
                       (PDict [(''result_id'', PStr (uuid4 env)), (''result'', result),
                               (''parameters'', parameters_dict p)]))"
    using store_success[OF store] by blast
  let ?key = "''analysis_result:'' @ uuid4 env"
  let ?cached = "PDict [(''result_id'', PStr (uuid4 env)), (''result'', result),
                        (''parameters'', parameters_dict p)]"
  have rows: "analysis_results s1 = analysis_results s @ [ar]"
    unfolding s1 cache_set_state by (simp split: option.splits)
  have found: "find (\<lambda>r. ar_user_id r = u \<and> ar_result_id r = uuid4 env) (analysis_results s1) = Some ar"
    unfolding rows using fresh by (intro find_append_fresh) (auto simp: ar)
  have hit: "cache_get s1 now u ?key = Some ?cached"
    if "redis_cache s \<noteq> None" "now < clock env + 3600"
    using that unfolding s1 cache_set_state by (auto simp: cache_get_def)
  have miss: "cache_get s1 now u ?key = None"
    if "redis_cache s = None \<or> clock env + 3600 \<le> now"
    using that unfolding s1 cache_set_state
    by (auto simp: cache_get_def split: option.splits)
  have fast: "fst (get_analysis_result s1 now u (uuid4 env)) = Inr ?cached"
    if "redis_cache s \<noteq> None" "now < clock env + 3600"
    using hit[OF that] by (simp add: get_analysis_result_def read_from_database_def result_dict_def Let_def)
  have durable: "fst (get_analysis_result s1 now u (uuid4 env)) =
          Inr (PDict [(''result_id'', PStr (uuid4 env)), (''cluster_name'', PStr cn),
                      (''namespace'', opt_str (namespace p)), (''result'', result),
                      (''created_at'', PDatetime (clock env)),
                      (''parameters'', parameters_dict p)])"
    if "redis_cache s = None \<or> clock env + 3600 \<le> now"
    using miss[OF that] found by (simp add: get_analysis_result_def read_from_database_def result_dict_def Let_def ar)
  have rid: "ar_result_id ar = uuid4 env" "json_loads (ar_result_json ar) = result"
    "json_loads (ar_parameters ar) = parameters_dict p" "ar_cluster_name ar = cn"
    "ar_namespace ar = namespace p" "ar_created_at ar = clock env"
    by (simp_all add: ar)
  show ?thesis
  proof (cases "redis_cache s \<noteq> None \<and> now < clock env + 3600")
    case True
    then show ?thesis using fast by (simp add: rid)
  next
    case False
    then have "redis_cache s = None \<or> clock env + 3600 \<le> now" by auto
    then show ?thesis using durable False by (auto simp: rid)
  qed
qed

lemma example_store:
  "fst (run_k8sgpt_analysis example_env 7 default_parameters (snd initial_system)) =
     Inr \<lparr>ar_id = 1, ar_user_id = 7, ar_cluster_name = ''prod'', ar_namespace = None,
          ar_result_id = ''r9'',
          ar_result_json =
            JsonText (PDict [(''stdout'', PStr ''0 problems detected'')]),
          ar_created_at = 100,
          ar_parameters = JsonText (parameters_dict default_parameters)\<rparr>"
  by (simp add: run_k8sgpt_analysis_def example_env_def initial_system_def Let_def
        execute_command_def shlex_split_def analyze_command_def default_parameters_def
        shlex_whitespace_def shlex_escape_def shlex_quote_char_def emit_def example_k8sgpt_def
        json_dumps_def parameters_dict_def next_id_def)

theorem fetch_after_store_witness:
  "fst (get_analysis_result
          (snd (run_k8sgpt_analysis example_env 7 default_parameters (snd initial_system)))
          200 7 ''r9'') =
     Inr (PDict [(''result_id'', PStr ''r9''),
                 (''result'', PDict [(''stdout'', PStr ''0 problems detected'')]),
                 (''parameters'', parameters_dict default_parameters)]) \<and>
   fst (get_analysis_result
          (snd (run_k8sgpt_analysis example_env 7 default_parameters (snd initial_system)))
          5000 7 ''r9'') =
     Inr (PDict [(''result_id'', PStr ''r9''),
                 (''cluster_name'', PStr ''prod''),
                 (''namespace'', PNone),
                 (''result'', PDict [(''stdout'', PStr ''0 problems detected'')]),
                 (''created_at'', PDatetime 100),
                 (''parameters'', parameters_dict default_parameters)])"
proof -
  let ?s = "snd initial_system"
  let ?row = "\<lparr>ar_id = 1, ar_user_id = 7, ar_cluster_name = ''prod'', ar_namespace = None,
          ar_result_id = ''r9'',
          ar_result_json =
            JsonText (PDict [(''stdout'', PStr ''0 problems detected'')]),
          ar_created_at = 100,
          ar_parameters = JsonText (parameters_dict default_parameters)\<rparr>"
  have store: "run_k8sgpt_analysis example_env 7 default_parameters ?s =
                 (Inr ?row, snd (run_k8sgpt_analysis example_env 7 default_parameters ?s))"
    using example_store by (simp add: prod_eq_iff)
  have fresh: "\<forall>r\<in>set (analysis_results ?s). ar_user_id r = 7 \<longrightarrow> ar_result_id r \<noteq> uuid4 example_env"
    by (simp add: initial_system_def)
  have cache: "redis_cache ?s \<noteq> None" "clock example_env = 100"
    by (simp_all add: initial_system_def example_env_def)
  show ?thesis
    using fetch_after_store[OF store fresh, of 200] fetch_after_store[OF store fresh, of 5000] cache
    by simp
qed


subsection \<open>Fetch\<close>

text \<open>
  C4. A fetch whose cache key holds a live value returns that value and neither reads
  nor writes anything else. On a cache miss with a row of the owner in the table, the
  fetch returns the dictionary built from the row, leaves the table as it was and, when
  the fast tier is available, stores that dictionary under the owner's key, where it is
  read back until it expires. On a miss with no row of the owner under the identifier
  the answer is 404 and the state is unchanged. In every state reached by analyses,
  fetches and listings from the empty service, an identifier that only other owners have
  results for is answered with 404, and so are reading and deleting a backend
  configuration that only other owners have.
\<close>

theorem fetch_reads_cache_then_database:
  "(cache_get s now u (''analysis_result:'' @ rid) = Some v \<and> truthy v \<longrightarrow>
      get_analysis_result s now u rid = (Inr v, s)) \<and>
   (cache_get s now u (''analysis_result:'' @ rid) = None \<and>
    find (\<lambda>r. ar_user_id r = u \<and> ar_result_id r = rid) (analysis_results s) = Some ar \<longrightarrow>
      fst (get_analysis_result s now u rid) = Inr (result_dict ar) \<and>
      analysis_results (snd (get_analysis_result s now u rid)) = analysis_results s \<and>
      (redis_cache s \<noteq> None \<and> t < now + 3600 \<longrightarrow>
         cache_get (snd (get_analysis_result s now u rid)) t u (''analysis_result:'' @ rid) =
           Some (result_dict ar))) \<and>
   (cache_get s now u (''analysis_result:'' @ rid) = None \<and>
    (\<forall>r\<in>set (analysis_results s). ar_result_id r = rid \<longrightarrow> ar_user_id r \<noteq> u) \<longrightarrow>
      get_analysis_result s now u rid = (Inl (HTTPException 404), s)) \<and>
   ((\<forall>r\<in>set (analysis_results (run_analysis_operations ops (fresh_service available))).
        ar_result_id r = rid \<longrightarrow> ar_user_id r \<noteq> u) \<longrightarrow>
      get_analysis_result (run_analysis_operations ops (fresh_service available)) now u rid =
        (Inl (HTTPException 404), run_analysis_operations ops (fresh_service available))) \<and>
   ((\<forall>b\<in>set (backends s). b_backend_name b = name \<longrightarrow> b_user_id b \<noteq> u) \<longrightarrow>
      get_ai_backend u name s = Inl (HTTPException 404) \<and>
      delete_ai_backend u name s = (Inl (HTTPException 404), s))"
  (is "(?hit \<longrightarrow> ?served) \<and> (?miss \<longrightarrow> ?read) \<and> (?absent \<longrightarrow> ?notfound) \<and>
       (?foreign \<longrightarrow> ?refused) \<and> (?nobackend \<longrightarrow> ?nobackend404)")
proof -
  have a: "?hit \<longrightarrow> ?served" by (simp add: fetch_hit)
  have b: "?miss \<longrightarrow> ?read"
  proof (rule impI)
    assume m: ?miss
    then have miss: "cache_get s now u (''analysis_result:'' @ rid) = None"
      and row: "find (\<lambda>r. ar_user_id r = u \<and> ar_result_id r = rid) (analysis_results s) = Some ar"
      by simp_all
    have "fst (get_analysis_result s now u rid) = Inr (result_dict ar)"
      by (simp add: fetch_from_database[OF miss row])
    moreover have "analysis_results (snd (get_analysis_result s now u rid)) = analysis_results s"
      by (rule fetch_tables)
    moreover have "redis_cache s \<noteq> None \<and> t < now + 3600 \<longrightarrow>
         cache_get (snd (get_analysis_result s now u rid)) t u (''analysis_result:'' @ rid) =
           Some (result_dict ar)"
      using fetch_repopulates[OF miss row] by blast
    ultimately show ?read by blast
  qed
  have c: "?absent \<longrightarrow> ?notfound"
    using fetch_absent_not_found[of s now u rid] by blast
  have d: "?foreign \<longrightarrow> ?refused"
  proof (rule impI)
    assume f: ?foreign
    have ok: "cache_keys_ok (run_analysis_operations ops (fresh_service available))"
      by (rule reachable_cache_keys_ok[OF fresh_cache_keys_ok])
    show ?refused by (rule fetch_of_other_owner_not_found[OF ok]) (use f in blast)
  qed
  have e: "?nobackend \<longrightarrow> ?nobackend404"
    using backend_of_other_owner_not_found[of s name u] by blast
  show ?thesis by (rule conjI[OF a conjI[OF b conjI[OF c conjI[OF d e]]]])
qed

lemma example_fetch_miss:
  "cache_get example_k8sgpt_service 50 7 ''analysis_result:r1'' = None"
  "find (\<lambda>r. ar_user_id r = 7 \<and> ar_result_id r = ''r1'') (analysis_results example_k8sgpt_service)
     = Some (example_analysis 1 ''r1'' 7 10)"
  "redis_cache example_k8sgpt_service \<noteq> None"
  by (simp_all add: cache_get_def example_k8sgpt_service_def example_analysis_def)

lemma example_reached_rows:
  "analysis_results (run_analysis_operations [Analyze example_env 7 default_parameters]
                       (fresh_service True)) =
     [\<lparr>ar_id = 1, ar_user_id = 7, ar_cluster_name = ''prod'', ar_namespace = None,
       ar_result_id = ''r9'',
       ar_result_json = JsonText (PDict [(''stdout'', PStr ''0 problems detected'')]),
       ar_created_at = 100,
       ar_parameters = JsonText (parameters_dict default_parameters)\<rparr>]"
  by (simp add: run_analysis_operations_def fresh_service_def run_k8sgpt_analysis_def
        example_env_def Let_def execute_command_def shlex_split_def analyze_command_def
        default_parameters_def shlex_whitespace_def shlex_escape_def shlex_quote_char_def emit_def
        example_k8sgpt_def json_dumps_def parameters_dict_def next_id_def cache_set_def)

theorem fetch_reads_cache_then_database_witness:
  "fst (get_analysis_result example_k8sgpt_service 50 7 ''r1'') =
     Inr (result_dict (example_analysis 1 ''r1'' 7 10)) \<and>
   cache_get (snd (get_analysis_result example_k8sgpt_service 50 7 ''r1'')) 60 7
     ''analysis_result:r1'' = Some (result_dict (example_analysis 1 ''r1'' 7 10)) \<and>
   get_analysis_result (snd (get_analysis_result example_k8sgpt_service 50 7 ''r1'')) 60 7 ''r1'' =
     (Inr (result_dict (example_analysis 1 ''r1'' 7 10)),
      snd (get_analysis_result example_k8sgpt_service 50 7 ''r1'')) \<and>
   get_analysis_result example_k8sgpt_service 50 7 ''r3'' =
     (Inl (HTTPException 404), example_k8sgpt_service) \<and>
   map ar_user_id (analysis_results (run_analysis_operations
         [Analyze example_env 7 default_parameters] (fresh_service True))) = [7] \<and>
   get_analysis_result
       (run_analysis_operations [Analyze example_env 7 default_parameters] (fresh_service True))
       150 8 ''r9'' =
     (Inl (HTTPException 404),
      run_analysis_operations [Analyze example_env 7 default_parameters] (fresh_service True)) \<and>
   get_ai_backend 8 ''ollama'' example_k8sgpt_service = Inl (HTTPException 404) \<and>
   delete_ai_backend 8 ''ollama'' example_k8sgpt_service =
     (Inl (HTTPException 404), example_k8sgpt_service)"
proof -
  let ?s = example_k8sgpt_service
  let ?d = "result_dict (example_analysis 1 ''r1'' 7 10)"
  let ?s1 = "snd (get_analysis_result ?s 50 7 ''r1'')"
  have read: "fst (get_analysis_result ?s 50 7 ''r1'') = Inr ?d \<and>
              cache_get ?s1 60 7 ''analysis_result:r1'' = Some ?d"
    using fetch_reads_cache_then_database
            [where s = ?s and now = 50 and u = 7 and rid = "''r1''"
               and ar = "example_analysis 1 ''r1'' 7 10" and t = 60]
          example_fetch_miss
    by simp
  have "truthy ?d" by (simp add: result_dict_def)
  then have hit: "get_analysis_result ?s1 60 7 ''r1'' = (Inr ?d, ?s1)"
    using fetch_reads_cache_then_database
            [where s = ?s1 and now = 60 and u = 7 and rid = "''r1''" and v = ?d]
          read
    by simp
  have absent: "get_analysis_result ?s 50 7 ''r3'' = (Inl (HTTPException 404), ?s)"
    using fetch_reads_cache_then_database[where s = ?s and now = 50 and u = 7 and rid = "''r3''"]
    by (simp add: cache_get_def example_k8sgpt_service_def example_analysis_def)
  have foreign: "get_analysis_result
       (run_analysis_operations [Analyze example_env 7 default_parameters] (fresh_service True))
       150 8 ''r9'' =
     (Inl (HTTPException 404),
      run_analysis_operations [Analyze example_env 7 default_parameters] (fresh_service True))"
    using fetch_reads_cache_then_database
            [where ops = "[Analyze example_env 7 default_parameters]" and available = True
               and now = 150 and u = 8 and rid = "''r9''"]
    by (simp add: example_reached_rows)
  have backend: "get_ai_backend 8 ''ollama'' ?s = Inl (HTTPException 404) \<and>
                 delete_ai_backend 8 ''ollama'' ?s = (Inl (HTTPException 404), ?s)"
    using fetch_reads_cache_then_database[where s = ?s and u = 8 and name = "''ollama''"]
    by (simp add: example_k8sgpt_service_def example_backend_def)
  show ?thesis
    using read hit absent foreign backend by (simp add: example_reached_rows)
qed

section \<open>Listing\<close>

lemma set_insert_desc: "set (insert_desc r xs) = insert r (set xs)"
  by (induction xs) auto

lemma length_insert_desc: "length (insert_desc r xs) = Suc (length xs)"
  by (induction xs) auto

lemma sorted_insert_desc:
  "sorted_wrt (\<lambda>a b. ar_created_at b \<le> ar_created_at a) xs \<Longrightarrow>
   sorted_wrt (\<lambda>a b. ar_created_at b \<le> ar_created_at a) (insert_desc r xs)"
  by (induction xs) (auto simp: set_insert_desc)

lemma set_order_by: "set (order_by_created_at_desc xs) = set xs"
  unfolding order_by_created_at_desc_def by (induction xs) (simp_all add: set_insert_desc)

lemma length_order_by: "length (order_by_created_at_desc xs) = length xs"
  unfolding order_by_created_at_desc_def by (induction xs) (simp_all add: length_insert_desc)

lemma sorted_order_by:
  "sorted_wrt (\<lambda>a b. ar_created_at b \<le> ar_created_at a) (order_by_created_at_desc xs)"
  unfolding order_by_created_at_desc_def by (induction xs) (simp_all add: sorted_insert_desc)

lemma mset_insert_desc: "mset (insert_desc r xs) = add_mset r (mset xs)"
  by (induction xs) auto

lemma mset_order_by: "mset (order_by_created_at_desc xs) = mset xs"
  unfolding order_by_created_at_desc_def by (induction xs) (simp_all add: mset_insert_desc)

text \<open>
  C9. The listing of the owner's analysis results is a database query only. There is one
  list of the owner's rows, all of them and no others, newest first, such that for every
  limit and offset the listing is the summaries of the rows left after skipping \<open>offset\<close>
  and keeping \<open>limit\<close> of that list; and the listing is the same whatever the cache
  holds.
\<close>

theorem list_is_database_query:
  "\<exists>rows. mset rows = mset (filter (\<lambda>r. ar_user_id r = u) (analysis_results s)) \<and>
          sorted_wrt (\<lambda>a b. ar_created_at b \<le> ar_created_at a) rows \<and>
          (\<forall>limit offset c.
             list_analysis_results s u limit offset = map summary (take limit (drop offset rows)) \<and>
             list_analysis_results (s\<lparr>redis_cache := c\<rparr>) u limit offset =
               list_analysis_results s u limit offset)"
proof (intro exI conjI allI)
  let ?rows = "order_by_created_at_desc (filter (\<lambda>r. ar_user_id r = u) (analysis_results s))"
  show "mset ?rows = mset (filter (\<lambda>r. ar_user_id r = u) (analysis_results s))"
    by (rule mset_order_by)
  show "sorted_wrt (\<lambda>a b. ar_created_at b \<le> ar_created_at a) ?rows"
    by (rule sorted_order_by)
  show "list_analysis_results s u limit offset = map summary (take limit (drop offset ?rows))"
    for limit offset
    by (simp add: list_analysis_results_def selected_rows_def)
  show "list_analysis_results (s\<lparr>redis_cache := c\<rparr>) u limit offset =
        list_analysis_results s u limit offset" for limit offset c
    by (simp add: list_analysis_results_def selected_rows_def)
qed

theorem list_is_database_query_witness:
  "list_analysis_results example_k8sgpt_service 7 10 0 =
     [summary (example_analysis 2 ''r2'' 7 20), summary (example_analysis 1 ''r1'' 7 10)] \<and>
   list_analysis_results (example_k8sgpt_service\<lparr>redis_cache := None\<rparr>) 7 10 0 =
     [summary (example_analysis 2 ''r2'' 7 20), summary (example_analysis 1 ''r1'' 7 10)] \<and>
   list_analysis_results example_k8sgpt_service 7 1 1 = [summary (example_analysis 1 ''r1'' 7 10)]"
  using list_is_database_query[of 7 example_k8sgpt_service]
  by (simp add: list_analysis_results_def selected_rows_def order_by_created_at_desc_def
        example_k8sgpt_service_def example_analysis_def)

subsection \<open>The listing route\<close>

lemma example_stored_rows:
  "analysis_results (snd (run_k8sgpt_analysis example_env 7 default_parameters (fresh_service True))) =
     [\<lparr>ar_id = 1, ar_user_id = 7, ar_cluster_name = ''prod'', ar_namespace = None,
       ar_result_id = ''r9'',
       ar_result_json = JsonText (PDict [(''stdout'', PStr ''0 problems detected'')]),
       ar_created_at = 100,
       ar_parameters = JsonText (parameters_dict default_parameters)\<rparr>]"
  by (simp add: run_k8sgpt_analysis_def example_env_def fresh_service_def Let_def
        execute_command_def shlex_split_def analyze_command_def default_parameters_def
        shlex_whitespace_def shlex_escape_def shlex_quote_char_def emit_def example_k8sgpt_def
        json_dumps_def parameters_dict_def next_id_def cache_set_def)

lemma example_stored_cache:
  "redis_cache (snd (run_k8sgpt_analysis example_env 7 default_parameters (fresh_service True))) =
     Some [''user:7:analysis_result:r9'' \<mapsto>
             (3700, PDict [(''result_id'', PStr ''r9''),
                (''result'', PDict [(''stdout'', PStr ''0 problems detected'')]),
                (''parameters'', parameters_dict default_parameters)])]"
  by (simp add: run_k8sgpt_analysis_def example_env_def fresh_service_def Let_def
        execute_command_def shlex_split_def analyze_command_def default_parameters_def
        shlex_whitespace_def shlex_escape_def shlex_quote_char_def emit_def example_k8sgpt_def
        json_dumps_def parameters_dict_def next_id_def cache_set_def CACHE_TTL_def
        get_cache_key_def str_int_def str_nat.simps digit_char_def)

text \<open>
  The route \<open>list_analyses\<close> is not the query alone: it fetches every listed result
  again with \<open>get_analysis_result\<close>, which reads the cache first. After one stored
  analysis, the listing asked for while the cache entry lives fails with status 500,
  because the dictionary that \<open>run_k8sgpt_analysis\<close> put into the cache has no
  \<open>cluster_name\<close>; with the fast tier not available the same table is listed.
\<close>

lemma listing_route_after_store:
  "fst (list_analyses
          (snd (run_k8sgpt_analysis example_env 7 default_parameters (fresh_service True)))
          200 7 10 0) = Inl (HTTPException 500) \<and>
   fst (list_analyses
          ((snd (run_k8sgpt_analysis example_env 7 default_parameters (fresh_service True)))
             \<lparr>redis_cache := None\<rparr>)
          200 7 10 0) =
     Inr [PDict [(''result_id'', PStr ''r9''), (''cluster_name'', PStr ''prod''),
                 (''namespace'', PNone),
                 (''items'', PList []),
                 (''created_at'', PDatetime 100),
                 (''parameters'', parameters_dict default_parameters)]]"
  by (simp add: list_analyses_def list_analysis_results_def selected_rows_def
        order_by_created_at_desc_def example_stored_rows example_stored_cache summary_def
        get_analysis_result_def read_from_database_def result_dict_def cache_get_def cache_set_def
        Let_def get_cache_key_def str_int_def str_nat.simps digit_char_def
        transformed_result_def item_get_def)

end
